theory Spec2Isabelle
  imports Main "HOL-Library.Word"
begin

section \<open>Errors\<close>

text \<open>
  Go functions return an \<open>error\<close> interface value beside their result; \<open>nil\<close> is
  \<open>None\<close>.  The sentinel errors of \<open>awsv1alpha1\<close> and the control plane's
  conflict are constructors of their own, every other error carries its message.  A nil
  pointer dereference is the value \<open>Panic\<close>.
\<close>

datatype error =
    ErrMsg string
  | OperationError string
  | Conflict
  | NotFound
  | ErrInvalidConfigMap
  | ErrAwsFailedCreateAccount
  | ErrAwsAccountLimitExceeded
  | ErrAwsConcurrentModification
  | ErrAwsInternalFailure
  | ErrAwsTooManyRequests
  | Panic

section \<open>Custom resources (package api/v1alpha1)\<close>

text \<open>
  The fields of the Account and AccountClaim resources that the controllers read or
  write.  Times are instants on a clock of natural numbers; a nil deletion timestamp is
  \<open>None\<close>.
\<close>

record LegalEntity =
  leName :: string
  leID :: string

datatype AccountConditionType =
    v1alpha1_AccountCreating
  | v1alpha1_AccountReady
  | v1alpha1_AccountCreationFailed
  | v1alpha1_AccountClientError

record AccountCondition =
  condType :: AccountConditionType
  condMessage :: string

record ObjectMeta =
  Name :: string
  Namespace :: string
  Finalizers :: "string list"
  DeletionTimestamp :: "nat option"
  Labels :: "(string \<times> string) list"
  ResourceVersion :: nat

record AccountSpec =
  AwsAccountID :: string
  BYOC :: bool
  ManualSTSMode :: bool
  ClaimLink :: string
  ClaimLinkNamespace :: string
  LegalEntity :: LegalEntity
  AccountPool :: string

record AccountStatus =
  State :: string
  Claimed :: bool
  Reused :: bool
  Conditions :: "AccountCondition list"
  SupportCaseID :: string

record Account =
  Meta :: ObjectMeta
  Spec :: AccountSpec
  Status :: AccountStatus

record AccountClaimSpec =
  claimLegalEntity :: LegalEntity
  AccountLink :: string
  claimAccountPool :: string
  claimBYOC :: bool

record AccountClaimCondition =
  claimCondType :: string
  claimCondReason :: string
  claimCondMessage :: string

record AccountClaimStatus =
  claimState :: string
  claimConditions :: "AccountClaimCondition list"

record AccountClaim =
  claimMeta :: ObjectMeta
  claimSpec :: AccountClaimSpec
  claimStatus :: AccountClaimStatus

section \<open>Configuration (package config and the standard library)\<close>

text \<open>
  Package \<open>config\<close> is not among the sources; what the controllers
  take from it is a parameter: the ARN builder \<open>GetIAMArn\<close>, the resource type
  constant, the default region and the FedRAMP switch.  \<open>MatchString\<close> stands for
  \<open>regexp.MatchString\<close> (pattern first), which returns the match and a compile
  error.
\<close>

record Config =
  GetIAMArn :: "string \<Rightarrow> string \<Rightarrow> string \<Rightarrow> string"
  AwsResourceTypeRole :: string
  GetDefaultRegion :: string
  IsFedramp :: bool
  MatchString :: "string \<Rightarrow> string \<Rightarrow> bool \<times> error option"

section \<open>The SDK v2 client wrapper (package awsclient)\<close>

text \<open>
  \<open>func (c *awsClientV2) BatchDeleteBucketObjects(bucketName *string) error\<close>: the
  body is a single \<open>return fmt.Errorf(...)\<close>; the argument is not read.
\<close>

definition BatchDeleteBucketObjects :: "string option \<Rightarrow> error option" where
  "BatchDeleteBucketObjects bucketName =
     Some (ErrMsg ''BatchDeleteBucketObjects not implemented for AWS SDK v2'')"

text \<open>\<open>NewAwsClientInputV2\<close>, the input of the client builder.\<close>

record NewAwsClientInputV2 =
  AwsCredsSecretIDKey :: string
  AwsCredsSecretAccessKey :: string
  AwsToken :: string
  AwsRegion :: string
  SecretName :: string
  NameSpace :: string

section \<open>Credential chain builder (package sts)\<close>

subsection \<open>Data of the assume-role call\<close>

text \<open>The fields of \<open>sts.AssumeRoleInput\<close> that the builder sets; pointers are options.\<close>

record AssumeRoleInput =
  DurationSeconds :: "32 word option"
  RoleArn :: "string option"
  RoleSessionName :: "string option"
  ExternalId :: "string option"

record Credentials =
  AccessKeyId :: "string option"
  SecretAccessKey :: "string option"
  SessionToken :: "string option"

record AssumedRoleUser =
  Arn :: "string option"
  AssumedRoleId :: "string option"

record AssumeRoleOutput =
  outAssumedRoleUser :: "AssumedRoleUser option"
  outCredentials :: "Credentials option"

text \<open>The zero value \<open>&sts.AssumeRoleOutput{}\<close>.\<close>

definition emptyAssumeRoleOutput :: AssumeRoleOutput where
  "emptyAssumeRoleOutput = \<lparr>outAssumedRoleUser = None, outCredentials = None\<rparr>"

subsection \<open>Effects\<close>

text \<open>
  What the builder does to the outside world, in order: \<open>time.Sleep\<close> (in
  milliseconds) and calls of the provider client.  Logging is not recorded.
\<close>

datatype event =
    Sleep nat
  | CallAssumeRole AssumeRoleInput
  | CallGetClientV2 string NewAwsClientInputV2
  | CallCreateAccount string string
  | CallDescribeCreateAccountStatus "string option"
  | CallTagResource string string
  | KubeUpdate Account
  | KubeStatusUpdate Account
  | KubeClaimStatusUpdate AccountClaim

text \<open>
  The provider client is an external collaborator.  \<open>AssumeRole\<close> answers the
  \<open>n\<close>-th call made through it (counted from 0) with a pair (output pointer, error), as
  the Go method does; \<open>DescribeCreateAccountStatus\<close> likewise answers the \<open>n\<close>-th
  poll.
\<close>

text \<open>
  The \<open>CreateAccountStatus\<close> structure of package \<open>organizations\<close>, shared by
  the outputs of \<open>CreateAccount\<close> and \<open>DescribeCreateAccountStatus\<close>.
\<close>

record CreateAccountStatus =
  casId :: "string option"
  casState :: string
  casFailureReason :: string
  casAccountId :: "string option"

record CreateAccountOutput =
  createStatus :: "CreateAccountStatus option"

record DescribeCreateAccountStatusOutput =
  describeStatus :: "CreateAccountStatus option"

definition emptyDescribeOutput :: DescribeCreateAccountStatusOutput where
  "emptyDescribeOutput = \<lparr>describeStatus = None\<rparr>"

record ClientV2 =
  AssumeRole :: "nat \<Rightarrow> AssumeRoleInput \<Rightarrow> AssumeRoleOutput option \<times> error option"
  CreateAccount :: "string \<Rightarrow> string \<Rightarrow> CreateAccountOutput option \<times> error option"
  DescribeCreateAccountStatus ::
    "nat \<Rightarrow> string option \<Rightarrow> DescribeCreateAccountStatusOutput option \<times> error option"
  TagResource :: "string \<Rightarrow> string \<Rightarrow> error option"

text \<open>
  \<open>IBuilderV2\<close>: the reconciler holds the builder as an interface value, so its
  answer (client pointer, error) is a parameter.  The Kubernetes client argument is part
  of the builder here.
\<close>

record IBuilderV2 =
  GetClientV2 :: "string \<Rightarrow> NewAwsClientInputV2 \<Rightarrow> ClientV2 option \<times> error option"

text \<open>
  The state outside the reconciler: the number of assume-role calls and of status polls
  answered so far, the effects in order, and the Account object held by the control plane.
\<close>

record world =
  calls :: nat
  polls :: nat
  trace :: "event list"
  stored :: "Account option"

definition sleep :: "nat \<Rightarrow> world \<Rightarrow> world" where
  "sleep ms w = w\<lparr>trace := trace w @ [Sleep ms]\<rparr>"

definition callAssumeRole ::
  "ClientV2 \<Rightarrow> AssumeRoleInput \<Rightarrow> world \<Rightarrow> (AssumeRoleOutput option \<times> error option) \<times> world" where
  "callAssumeRole client inp w =
     (AssumeRole client (calls w) inp,
      w\<lparr>calls := Suc (calls w), trace := trace w @ [CallAssumeRole inp]\<rparr>)"

subsection \<open>GetSTSCredentialsV2\<close>

text \<open>
  \<open>var roleSessionDuration int32 = 3600\<close>; the external ID is set only when it is not
  the empty string.
\<close>

definition roleSessionDuration :: "32 word" where
  "roleSessionDuration = 3600"

definition assumeRoleInput :: "string \<Rightarrow> string \<Rightarrow> string \<Rightarrow> AssumeRoleInput" where
  "assumeRoleInput roleArn externalID roleSessionName =
     \<lparr>DurationSeconds = Some roleSessionDuration,
      RoleArn = Some roleArn,
      RoleSessionName = Some roleSessionName,
      ExternalId = (if externalID \<noteq> [] then Some externalID else None)\<rparr>"

text \<open>
  The loop \<open>for i := 0; i < 100; i++\<close>, by the number of iterations left.  Each
  iteration sleeps 500 ms, calls \<open>AssumeRole\<close> and overwrites both
  \<open>assumeRoleOutput\<close> and \<open>err\<close>; it breaks when \<open>err == nil\<close>.
\<close>

fun assumeRoleLoop ::
  "ClientV2 \<Rightarrow> AssumeRoleInput \<Rightarrow> nat \<Rightarrow> AssumeRoleOutput option \<times> error option \<Rightarrow> world
     \<Rightarrow> (AssumeRoleOutput option \<times> error option) \<times> world" where
  "assumeRoleLoop client inp 0 cur w = (cur, w)"
| "assumeRoleLoop client inp (Suc n) cur w =
     (case callAssumeRole client inp (sleep 500 w) of
        (r, w') \<Rightarrow> if snd r = None then (r, w') else assumeRoleLoop client inp n r w')"

definition GetSTSCredentialsV2 ::
  "ClientV2 \<Rightarrow> string \<Rightarrow> string \<Rightarrow> string \<Rightarrow> world
     \<Rightarrow> (AssumeRoleOutput option \<times> error option) \<times> world" where
  "GetSTSCredentialsV2 client roleArn externalID roleSessionName w =
     (case assumeRoleLoop client (assumeRoleInput roleArn externalID roleSessionName) 100
             (Some emptyAssumeRoleOutput, None) w of
        ((out, err), w') \<Rightarrow>
          if err \<noteq> None then ((Some emptyAssumeRoleOutput, err), w')
          else ((out, err), w'))"

text \<open>The effects of \<open>k\<close> iterations of the loop.\<close>

definition attempts :: "AssumeRoleInput \<Rightarrow> nat \<Rightarrow> event list" where
  "attempts inp k = concat (replicate k [Sleep 500, CallAssumeRole inp])"

subsection \<open>HandleRoleAssumptionV2\<close>

definition controllerNameV2_sts :: string where
  "controllerNameV2_sts = ''account''"

definition matchSubstringV2 :: "Config \<Rightarrow> string \<Rightarrow> string \<Rightarrow> bool \<times> error option" where
  "matchSubstringV2 cfg roleID role = MatchString cfg roleID role"

text \<open>\<open>*creds.AssumedRoleUser.AssumedRoleId\<close>: \<open>None\<close> when a pointer on the way is nil.\<close>

definition assumedRoleId :: "AssumeRoleOutput option \<Rightarrow> string option" where
  "assumedRoleId creds =
     (case creds of None \<Rightarrow> None
      | Some out \<Rightarrow> (case outAssumedRoleUser out of None \<Rightarrow> None | Some u \<Rightarrow> AssumedRoleId u))"

text \<open>
  The loop \<open>for i := 0; i < 10; i++\<close>, by the number of iterations left and the index
  \<open>i\<close>.  \<open>time.Duration(i) * time.Second\<close> is \<open>i * 1000\<close> milliseconds.  The error
  of the match is dropped (\<open>match, _ :=\<close>).
\<close>

fun roleAssumptionLoop ::
  "Config \<Rightarrow> ClientV2 \<Rightarrow> string \<Rightarrow> string \<Rightarrow> string \<Rightarrow> nat \<Rightarrow> nat \<Rightarrow> AssumeRoleOutput option
     \<Rightarrow> world \<Rightarrow> (error + AssumeRoleOutput option) \<times> world" where
  "roleAssumptionLoop cfg client roleArn roleSessionName ccsRoleID 0 i creds w = (Inr creds, w)"
| "roleAssumptionLoop cfg client roleArn roleSessionName ccsRoleID (Suc n) i creds w =
     (case GetSTSCredentialsV2 client roleArn [] roleSessionName w of
        ((creds', credsErr), w') \<Rightarrow>
          (case credsErr of
             Some e \<Rightarrow> (Inl e, w')
           | None \<Rightarrow>
               (case assumedRoleId creds' of
                  None \<Rightarrow> (Inl Panic, w')
                | Some rid \<Rightarrow>
                    if ccsRoleID \<noteq> [] \<and> \<not> fst (matchSubstringV2 cfg ccsRoleID rid)
                    then roleAssumptionLoop cfg client roleArn roleSessionName ccsRoleID n (Suc i)
                           creds' (sleep (i * 1000) w')
                    else (Inr creds', w'))))"

text \<open>
  The part after the loop: the region, the three dereferences of
  \<open>creds.Credentials\<close> and the call of the builder.
\<close>

definition buildAssumedRoleClient ::
  "Config \<Rightarrow> IBuilderV2 \<Rightarrow> string \<Rightarrow> AssumeRoleOutput option \<Rightarrow> world
     \<Rightarrow> (error + ClientV2 option \<times> AssumeRoleOutput option) \<times> world" where
  "buildAssumedRoleClient cfg awsClientBuilder region creds w =
     (let awsRegion = (if region \<noteq> [] then region else GetDefaultRegion cfg) in
      case creds of
        None \<Rightarrow> (Inl Panic, w)
      | Some out \<Rightarrow>
          (case outCredentials out of
             None \<Rightarrow> (Inl Panic, w)
           | Some c \<Rightarrow>
               (case (AccessKeyId c, SecretAccessKey c, SessionToken c) of
                  (Some k, Some sk, Some tok) \<Rightarrow>
                    (let inp = \<lparr>AwsCredsSecretIDKey = k, AwsCredsSecretAccessKey = sk,
                                AwsToken = tok, AwsRegion = awsRegion,
                                SecretName = [], NameSpace = []\<rparr>;
                         w' = w\<lparr>trace := trace w @ [CallGetClientV2 controllerNameV2_sts inp]\<rparr>
                     in case GetClientV2 awsClientBuilder controllerNameV2_sts inp of
                          (cl, Some e) \<Rightarrow> (Inl e, w')
                        | (cl, None) \<Rightarrow> (Inr (cl, creds), w'))
                | _ \<Rightarrow> (Inl Panic, w))))"

definition HandleRoleAssumptionV2 ::
  "Config \<Rightarrow> IBuilderV2 \<Rightarrow> Account \<Rightarrow> ClientV2 \<Rightarrow> string \<Rightarrow> string \<Rightarrow> string \<Rightarrow> world
     \<Rightarrow> (error + ClientV2 option \<times> AssumeRoleOutput option) \<times> world" where
  "HandleRoleAssumptionV2 cfg awsClientBuilder currentAcctInstance awsSetupClient region
       roleToAssume ccsRoleID w =
     (let roleArn = GetIAMArn cfg (AwsAccountID (Spec currentAcctInstance))
                      (AwsResourceTypeRole cfg) roleToAssume;
          roleSessionName = ''awsAccountOperator''
      in case roleAssumptionLoop cfg awsSetupClient roleArn roleSessionName ccsRoleID 10 0 None w of
           (Inl e, w') \<Rightarrow> (Inl e, w')
         | (Inr creds, w') \<Rightarrow> buildAssumedRoleClient cfg awsClientBuilder region creds w')"

definition AssumeRoleAndCreateClientV2 ::
  "Config \<Rightarrow> IBuilderV2 \<Rightarrow> Account \<Rightarrow> ClientV2 \<Rightarrow> string \<Rightarrow> string \<Rightarrow> string \<Rightarrow> world
     \<Rightarrow> (error + ClientV2 option \<times> AssumeRoleOutput option) \<times> world" where
  "AssumeRoleAndCreateClientV2 = HandleRoleAssumptionV2"

text \<open>
  The effects of \<open>k\<close> rounds of the outer loop, from index \<open>i\<close> on, when every
  assume-role call answers at once: the whole call (with its 500 ms sleep), then the
  back-off of as many seconds as the index of the round.
\<close>

definition backoffRounds :: "AssumeRoleInput \<Rightarrow> nat \<Rightarrow> nat \<Rightarrow> event list" where
  "backoffRounds inp i k =
     concat (map (\<lambda>j. [Sleep 500, CallAssumeRole inp, Sleep (j * 1000)]) [i..<i + k])"

definition okOutput :: AssumeRoleOutput where
  "okOutput = \<lparr>outAssumedRoleUser = Some \<lparr>Arn = Some ''aws:::OrganizationAccountAccessRole/awsAccountOperator'',
       AssumedRoleId = Some ''OrganizationAccountAccessRole/awsAccountOperator''\<rparr>,
     outCredentials = Some \<lparr>AccessKeyId = Some ''ACCESS_KEY'', SecretAccessKey = Some ''SECRET_KEY'',
       SessionToken = Some ''SESSION_TOKEN''\<rparr>\<rparr>"

definition nullClient :: ClientV2 where
  "nullClient =
     \<lparr>AssumeRole = (\<lambda>i inp. (None, Some (OperationError ''AccessDenied''))),
      CreateAccount = (\<lambda>accountName email. (None, Some (OperationError ''AccessDeniedException''))),
      DescribeCreateAccountStatus = (\<lambda>i requestId. (None, Some (OperationError ''AccessDeniedException''))),
      TagResource = (\<lambda>resourceId owner. None)\<rparr>"

definition flakyClient :: "nat \<Rightarrow> ClientV2" where
  "flakyClient n =
     nullClient\<lparr>AssumeRole := (\<lambda>i inp. if i < n then (None, Some (OperationError ''AccessDenied''))
                                       else (Some okOutput, None))\<rparr>"

definition failingClient :: ClientV2 where
  "failingClient = nullClient\<lparr>AssumeRole := (\<lambda>i inp. (None, Some (ErrMsg (replicate i CHR ''x''))))\<rparr>"

definition world0 :: world where
  "world0 = \<lparr>calls = 0, polls = 0, trace = [], stored = None\<rparr>"

definition roleMismatch :: "Config \<Rightarrow> string \<Rightarrow> AssumeRoleOutput option \<times> error option \<Rightarrow> bool" where
  "roleMismatch cfg ccsRoleID r =
     (snd r = None \<and>
      (case assumedRoleId (fst r) of
         None \<Rightarrow> False
       | Some rid \<Rightarrow> ccsRoleID \<noteq> [] \<and> \<not> fst (matchSubstringV2 cfg ccsRoleID rid)))"

definition roleAccepted :: "Config \<Rightarrow> string \<Rightarrow> AssumeRoleOutput option \<times> error option \<Rightarrow> bool" where
  "roleAccepted cfg ccsRoleID r =
     (snd r = None \<and>
      (case assumedRoleId (fst r) of
         None \<Rightarrow> False
       | Some rid \<Rightarrow> ccsRoleID = [] \<or> fst (matchSubstringV2 cfg ccsRoleID rid)))"

definition roleOutput :: "string \<Rightarrow> AssumeRoleOutput" where
  "roleOutput rid =
     \<lparr>outAssumedRoleUser = Some \<lparr>Arn = Some ''arn:aws:sts::123456789012:assumed-role/BYOCAdminAccess/awsAccountOperator'',
                                  AssumedRoleId = Some (rid @ '':awsAccountOperator'')\<rparr>,
      outCredentials = Some \<lparr>AccessKeyId = Some ''ACCESS_KEY'', SecretAccessKey = Some ''SECRET_KEY'',
                              SessionToken = Some ''SESSION_TOKEN''\<rparr>\<rparr>"

definition staleClient :: "nat \<Rightarrow> ClientV2" where
  "staleClient n =
     nullClient\<lparr>AssumeRole :=
       (\<lambda>i inp. (Some (roleOutput (if i < n then ''AROAOLD'' else ''AROANEW'')), None))\<rparr>"

definition config0 :: Config where
  "config0 =
     \<lparr>GetIAMArn = (\<lambda>accountID resourceType resource.
                     ''arn:aws:iam::'' @ accountID @ '':'' @ resourceType @ ''/'' @ resource),
      AwsResourceTypeRole = ''role'',
      GetDefaultRegion = ''us-east-1'',
      IsFedramp = False,
      MatchString = (\<lambda>pat s. (take (length pat) s = pat, None))\<rparr>"

definition builder0 :: IBuilderV2 where
  "builder0 = \<lparr>GetClientV2 = (\<lambda>name inp. (Some (staleClient 0), None))\<rparr>"

definition account0 :: Account where
  "account0 =
     \<lparr>Meta = \<lparr>Name = ''osd-creds-mgmt-aaabbb'', Namespace = ''aws-account-operator'',
              Finalizers = [], DeletionTimestamp = None, Labels = [], ResourceVersion = 1\<rparr>,
      Spec = \<lparr>AwsAccountID = ''123456789012'', BYOC = False, ManualSTSMode = False,
              ClaimLink = [], ClaimLinkNamespace = [],
              LegalEntity = \<lparr>leName = [], leID = []\<rparr>, AccountPool = []\<rparr>,
      Status = \<lparr>State = [], Claimed = False, Reused = False, Conditions = [],
                SupportCaseID = []\<rparr>\<rparr>"

definition byocInput :: AssumeRoleInput where
  "byocInput = assumeRoleInput ''arn:aws:iam::123456789012:role/BYOCAdminAccess'' [] ''awsAccountOperator''"

definition assumedClientInput :: NewAwsClientInputV2 where
  "assumedClientInput =
     \<lparr>AwsCredsSecretIDKey = ''ACCESS_KEY'', AwsCredsSecretAccessKey = ''SECRET_KEY'',
      AwsToken = ''SESSION_TOKEN'', AwsRegion = ''us-east-1'', SecretName = [], NameSpace = []\<rparr>"

section \<open>Account controller (package account)\<close>

subsection \<open>What the controller takes from other packages\<close>

text \<open>
  Packages \<open>utils\<close>, \<open>totalaccountwatcher\<close> and \<open>api/v1alpha1\<close> and the
  Kubernetes client are not among the sources.  Their constants and the
  answers of their functions are parameters of the model, collected in the records below.
  \<open>GetOperatorConfigMap\<close> answers with the data of the config map or an error.
\<close>

datatype devMode = DevModeProduction | DevModeLocal | DevModeCluster

record Utils =
  GetOperatorConfigMap :: "error + (string \<Rightarrow> string option)"
  GetFeatureFlagValue :: "(string \<Rightarrow> string option) \<Rightarrow> string \<Rightarrow> bool \<times> error option"
  WaitTime :: nat
  DetectDevMode :: devMode
  CreationConditionOlderThan :: "Account \<Rightarrow> nat \<Rightarrow> bool"
  AccountCRHasIAMUserIDLabel :: "Account \<Rightarrow> bool"
  GenerateShortUID :: string
  AwsSecretName :: string
  AccountsCanBeCreated :: bool
  formatAccountEmail :: "string \<Rightarrow> string"

record Api =
  AccountFinalizer :: string
  AccountCrNamespace :: string
  AccountOperatorIAMRole :: string
  IAMUserIDLabel :: string
  GetAssumeRole :: "Account \<Rightarrow> string"
  ReadyForRegionEnablement :: "Account \<Rightarrow> bool"
  IsEnablingOptInRegions :: "Account \<Rightarrow> bool"
  ReadyForInitialization :: "Account \<Rightarrow> bool"

text \<open>
  The Kubernetes client: \<open>Get\<close> reads the stored Account unless an error is injected,
  \<open>Update\<close> and \<open>Status().Update\<close> fail with the injected error if there is one.
\<close>

record KubeClient =
  GetErr :: "error option"
  UpdateErr :: "Account \<Rightarrow> error option"
  StatusUpdateErr :: "Account \<Rightarrow> error option"
  GetAccountClaim :: "AccountClaim \<times> error option"
  ClaimStatusUpdateErr :: "AccountClaim \<Rightarrow> error option"

record AccountReconcilerV2 =
  Client :: KubeClient
  awsClientBuilder :: IBuilderV2
  shardName :: string

record Env =
  config :: Config
  utils :: Utils
  api :: Api

record Result =
  Requeue :: bool
  RequeueAfter :: nat

definition emptyResult :: Result where
  "emptyResult = \<lparr>Requeue = False, RequeueAfter = 0\<rparr>"

subsection \<open>Constants of the controller\<close>

text \<open>One minute and one second in milliseconds, the unit of every duration here.\<close>

definition Minute :: nat where "Minute = 60000"

definition Second :: nat where "Second = 1000"

definition AccountPendingV2 :: string where "AccountPendingV2 = ''Pending''"
definition AccountCreatingV2 :: string where "AccountCreatingV2 = ''Creating''"
definition AccountFailedV2 :: string where "AccountFailedV2 = ''Failed''"
definition AccountInitializingRegionsV2 :: string where
  "AccountInitializingRegionsV2 = ''InitializingRegions''"
definition AccountReadyV2 :: string where "AccountReadyV2 = ''Ready''"
definition AccountPendingVerificationV2 :: string where
  "AccountPendingVerificationV2 = ''PendingVerification''"

definition createPendTimeV2 :: "Utils \<Rightarrow> nat" where
  "createPendTimeV2 u = WaitTime u * Minute"

definition awsAccountInitRequeueDurationV2 :: nat where
  "awsAccountInitRequeueDurationV2 = 1 * Minute"

text \<open>
  \<open>Reconcile\<close> names the constants of the first controller of the package
  (\<open>AccountFailed\<close>, \<open>AccountCreating\<close>, \<open>AccountReady\<close>, \<open>createPendTime\<close>,
  \<open>controllerName\<close>), which are declared beside it in the package and not in this file;
  they take the values of their twins declared in this file.
\<close>

definition AccountFailed :: string where "AccountFailed = AccountFailedV2"
definition AccountCreating :: string where "AccountCreating = AccountCreatingV2"
definition AccountReady :: string where "AccountReady = AccountReadyV2"
definition createPendTime :: "Utils \<Rightarrow> nat" where "createPendTime = createPendTimeV2"
definition controllerName :: string where "controllerName = ''account''"

subsection \<open>Helper methods of the resources\<close>

text \<open>
  Modelled from the spec: the helper methods of \<open>Account\<close> are declared in
  \<open>api/v1alpha1\<close>, which is missing; each one below is what its name says over the
  fields of the data model (state, claimed flag, claim link, provider account ID,
  deletion timestamp, finalizers).  The four whose meaning the names do not fix are
  fields of \<open>Api\<close>.
\<close>

definition IsPendingDeletion :: "Account \<Rightarrow> bool" where
  "IsPendingDeletion a = (DeletionTimestamp (Meta a) \<noteq> None)"

definition IsBYOC :: "Account \<Rightarrow> bool" where
  "IsBYOC a = BYOC (Spec a)"

definition HasState :: "Account \<Rightarrow> bool" where
  "HasState a = (State (Status a) \<noteq> [])"

definition IsClaimed :: "Account \<Rightarrow> bool" where
  "IsClaimed a = Claimed (Status a)"

definition HasClaimLink :: "Account \<Rightarrow> bool" where
  "HasClaimLink a = (ClaimLink (Spec a) \<noteq> [])"

definition HasAwsAccountID :: "Account \<Rightarrow> bool" where
  "HasAwsAccountID a = (AwsAccountID (Spec a) \<noteq> [])"

definition IsFailed :: "Account \<Rightarrow> bool" where
  "IsFailed a = (State (Status a) = AccountFailed)"

definition IsReady :: "Account \<Rightarrow> bool" where
  "IsReady a = (State (Status a) = AccountReady)"

definition IsCreating :: "Account \<Rightarrow> bool" where
  "IsCreating a = (State (Status a) = AccountCreating)"

definition IsInitializingRegions :: "Account \<Rightarrow> bool" where
  "IsInitializingRegions a = (State (Status a) = AccountInitializingRegionsV2)"

definition IsPendingVerification :: "Account \<Rightarrow> bool" where
  "IsPendingVerification a = (State (Status a) = AccountPendingVerificationV2)"

definition IsReadyUnclaimedAndHasClaimLink :: "Account \<Rightarrow> bool" where
  "IsReadyUnclaimedAndHasClaimLink a = (IsReady a \<and> HasClaimLink a \<and> \<not> IsClaimed a)"

definition IsUnclaimedAndHasNoState :: "Account \<Rightarrow> bool" where
  "IsUnclaimedAndHasNoState a = (\<not> IsClaimed a \<and> \<not> HasState a)"

definition Contains :: "string list \<Rightarrow> string \<Rightarrow> bool" where
  "Contains list s = (s \<in> set list)"

definition Remove :: "string list \<Rightarrow> string \<Rightarrow> string list" where
  "Remove list s = removeAll s list"

definition IsNonSTSPendingDeletionWithFinalizer :: "Api \<Rightarrow> Account \<Rightarrow> bool" where
  "IsNonSTSPendingDeletionWithFinalizer ap a =
     (\<not> ManualSTSMode (Spec a) \<and> IsPendingDeletion a \<and>
      Contains (Finalizers (Meta a)) (AccountFinalizer ap))"

text \<open>
  Modelled from the spec: \<open>utils.SetAccountStatus\<close> is missing.  Its parameters are
  (account, message, condition type, state), in the order of the five calls that pass
  literals in the file of the reconciler, such as
  \<open>SetAccountStatus(account, "Failed to create AWS Account", AccountCreationFailed,
  AccountFailed)\<close>; it adds a condition of the given type with the message to the
  condition history and sets \<open>Status.State\<close>.  It has no parameter for a reason.
\<close>

definition SetAccountStatus :: "Account \<Rightarrow> string \<Rightarrow> AccountConditionType \<Rightarrow> string \<Rightarrow> Account" where
  "SetAccountStatus awsAccount message ctype state =
     awsAccount\<lparr>Status := (Status awsAccount)
       \<lparr>Conditions := Conditions (Status awsAccount) @ [\<lparr>condType = ctype, condMessage = message\<rparr>],
        State := state\<rparr>\<rparr>"

text \<open>Modelled from the spec: \<open>utils.SetAccountClaimStatus\<close>, likewise missing.\<close>

definition SetAccountClaimStatus ::
  "AccountClaim \<Rightarrow> string \<Rightarrow> string \<Rightarrow> string \<Rightarrow> string \<Rightarrow> AccountClaim" where
  "SetAccountClaimStatus accountClaim message reason ctype state =
     accountClaim\<lparr>claimStatus := (claimStatus accountClaim)
       \<lparr>claimConditions := claimConditions (claimStatus accountClaim) @
          [\<lparr>claimCondType = ctype, claimCondReason = reason, claimCondMessage = message\<rparr>],
        claimState := state\<rparr>\<rparr>"

text \<open>
  \<open>err.Error()\<close>; the texts of the sentinel errors are not in the sources and are
  rendered by their names.
\<close>

fun errorString :: "error \<Rightarrow> string" where
  "errorString (ErrMsg s) = s"
| "errorString (OperationError s) = s"
| "errorString Conflict = ''Conflict''"
| "errorString NotFound = ''NotFound''"
| "errorString ErrInvalidConfigMap = ''ErrInvalidConfigMap''"
| "errorString ErrAwsFailedCreateAccount = ''ErrAwsFailedCreateAccount''"
| "errorString ErrAwsAccountLimitExceeded = ''ErrAwsAccountLimitExceeded''"
| "errorString ErrAwsConcurrentModification = ''ErrAwsConcurrentModification''"
| "errorString ErrAwsInternalFailure = ''ErrAwsInternalFailure''"
| "errorString ErrAwsTooManyRequests = ''ErrAwsTooManyRequests''"
| "errorString Panic = ''panic''"

text \<open>The verb \<open>%d\<close> of \<open>fmt.Sprintf\<close> on a number that is not negative.\<close>

fun decimal :: "nat \<Rightarrow> string" where
  "decimal n =
     (if n < 10 then [''0123456789'' ! n]
      else decimal (n div 10) @ [''0123456789'' ! (n mod 10)])"

declare decimal.simps [simp del]

subsection \<open>Effects on the control plane\<close>

definition kubeGet :: "KubeClient \<Rightarrow> world \<Rightarrow> error + Account" where
  "kubeGet k w =
     (case GetErr k of
        Some e \<Rightarrow> Inl e
      | None \<Rightarrow> (case stored w of None \<Rightarrow> Inl NotFound | Some a \<Rightarrow> Inr a))"

text \<open>
  \<open>Update\<close> writes the metadata and the spec, \<open>Status().Update\<close> the status (the
  status is a subresource).
\<close>

definition kubeUpdate :: "KubeClient \<Rightarrow> Account \<Rightarrow> world \<Rightarrow> error option \<times> world" where
  "kubeUpdate k a w =
     (let w' = w\<lparr>trace := trace w @ [KubeUpdate a]\<rparr> in
      case UpdateErr k a of
        Some e \<Rightarrow> (Some e, w')
      | None \<Rightarrow>
          (case stored w of
             None \<Rightarrow> (Some NotFound, w')
           | Some s \<Rightarrow> (None, w'\<lparr>stored := Some (a\<lparr>Status := Status s\<rparr>)\<rparr>)))"

definition kubeStatusUpdate :: "KubeClient \<Rightarrow> Account \<Rightarrow> world \<Rightarrow> error option \<times> world" where
  "kubeStatusUpdate k a w =
     (let w' = w\<lparr>trace := trace w @ [KubeStatusUpdate a]\<rparr> in
      case StatusUpdateErr k a of
        Some e \<Rightarrow> (Some e, w')
      | None \<Rightarrow>
          (case stored w of
             None \<Rightarrow> (Some NotFound, w')
           | Some s \<Rightarrow> (None, w'\<lparr>stored := Some (s\<lparr>Status := Status a\<rparr>)\<rparr>)))"

subsection \<open>Helper functions of the reconciler\<close>

definition statusUpdate :: "AccountReconcilerV2 \<Rightarrow> Account \<Rightarrow> world \<Rightarrow> error option \<times> world" where
  "statusUpdate r account w = kubeStatusUpdate (Client r) account w"

definition accountSpecUpdate :: "AccountReconcilerV2 \<Rightarrow> Account \<Rightarrow> world \<Rightarrow> error option \<times> world" where
  "accountSpecUpdate r account w = kubeUpdate (Client r) account w"

definition addFinalizer ::
  "Env \<Rightarrow> AccountReconcilerV2 \<Rightarrow> Account \<Rightarrow> world \<Rightarrow> error option \<times> Account \<times> world" where
  "addFinalizer env r account w =
     (if \<not> Contains (Finalizers (Meta account)) (AccountFinalizer (api env)) then
        (let account' = account\<lparr>Meta := (Meta account)
                \<lparr>Finalizers := Finalizers (Meta account) @ [AccountFinalizer (api env)]\<rparr>\<rparr>
         in case kubeUpdate (Client r) account' w of
              (err, w') \<Rightarrow> (err, account', w'))
      else (None, account, w))"

definition removeFinalizer ::
  "AccountReconcilerV2 \<Rightarrow> Account \<Rightarrow> string \<Rightarrow> world \<Rightarrow> error option \<times> Account \<times> world" where
  "removeFinalizer r account finalizerName w =
     (let account' = account\<lparr>Meta := (Meta account)
             \<lparr>Finalizers := Remove (Finalizers (Meta account)) finalizerName\<rparr>\<rparr>
      in case kubeUpdate (Client r) account' w of
           (err, w') \<Rightarrow> (err, account', w'))"

text \<open>
  \<open>setAccountFailedV2\<close> hands \<open>state\<close>, \<open>ctype\<close> and \<open>message\<close> to
  \<open>SetAccountStatus\<close> in this order and does not use \<open>reason\<close>.
\<close>

definition setAccountFailedV2 ::
  "AccountReconcilerV2 \<Rightarrow> Account \<Rightarrow> AccountConditionType \<Rightarrow> string \<Rightarrow> string \<Rightarrow> string \<Rightarrow> world
     \<Rightarrow> (Result \<times> error option) \<times> Account \<times> world" where
  "setAccountFailedV2 r account ctype reason message state w =
     (let account' = SetAccountStatus account state ctype message in
      case statusUpdate r account' w of
        (Some e, w') \<Rightarrow> ((emptyResult, Some e), account', w')
      | (None, w') \<Rightarrow> ((emptyResult, None), account', w'))"

definition handleAWSClientErrorV2 ::
  "AccountReconcilerV2 \<Rightarrow> Account \<Rightarrow> error \<Rightarrow> world \<Rightarrow> (Result \<times> error option) \<times> Account \<times> world" where
  "handleAWSClientErrorV2 r currentAcctInstance err w =
     (let reason = (case err of OperationError s \<Rightarrow> s | _ \<Rightarrow> []);
          errMsg = ''Failed to create STS Credentials for account ID '' @
                     AwsAccountID (Spec currentAcctInstance) @ '': '' @ errorString err
      in case setAccountFailedV2 r currentAcctInstance v1alpha1_AccountClientError reason errMsg
                AccountFailed w of
           (_, account', w') \<Rightarrow> ((emptyResult, Some err), account', w'))"

text \<open>The functions whose bodies are placeholders in the file of the reconciler.\<close>

definition handleAccountInitializingRegionsV2 :: "Result \<times> error option" where
  "handleAccountInitializingRegionsV2 = (emptyResult, None)"

definition initializeNewCCSAccountV2 :: "Result \<times> error option" where
  "initializeNewCCSAccountV2 = (emptyResult, None)"

definition HandleNonCCSPendingVerificationV2 :: "Result \<times> error option" where
  "HandleNonCCSPendingVerificationV2 = (emptyResult, None)"

definition handleOptInRegionEnablementV2 :: "Result \<times> error option" where
  "handleOptInRegionEnablementV2 = (emptyResult, None)"

definition getSTSClientV2 ::
  "ClientV2 option \<Rightarrow> ClientV2 option \<times> AssumeRoleOutput option \<times> error option" where
  "getSTSClientV2 awsSetupClient = (awsSetupClient, Some emptyAssumeRoleOutput, None)"

definition handleIAMUserCreationV2 :: "Result \<times> AssumeRoleOutput option \<times> error option" where
  "handleIAMUserCreationV2 = (emptyResult, Some emptyAssumeRoleOutput, None)"

definition initializeRegionsV2 :: "error option" where
  "initializeRegionsV2 = None"

definition ClaimAccountV2 :: "error option" where
  "ClaimAccountV2 = None"

definition isAwsOptInErrorV2 :: "error option \<Rightarrow> bool" where
  "isAwsOptInErrorV2 err = False"

definition newBYOCAccountV2 :: "Account \<Rightarrow> bool" where
  "newBYOCAccountV2 account = BYOC (Spec account)"

definition getAccountClaim :: "AccountReconcilerV2 \<Rightarrow> Account \<Rightarrow> AccountClaim \<times> error option" where
  "getAccountClaim r account = GetAccountClaim (Client r)"

subsection \<open>Creating the provider account\<close>

definition callDescribe ::
  "ClientV2 \<Rightarrow> string option \<Rightarrow> world
     \<Rightarrow> (DescribeCreateAccountStatusOutput option \<times> error option) \<times> world" where
  "callDescribe client requestId w =
     (DescribeCreateAccountStatus client (polls w) requestId,
      w\<lparr>polls := Suc (polls w), trace := trace w @ [CallDescribeCreateAccountStatus requestId]\<rparr>)"

text \<open>
  The polling loop \<open>for { ... time.Sleep(10 * time.Second) }\<close> of
  \<open>CreateAccountV2\<close> has no bound of its own: the first argument is the number of
  polls allowed, and \<open>None\<close> says that the loop has not returned within them.
\<close>

fun describeLoop ::
  "nat \<Rightarrow> ClientV2 \<Rightarrow> string option \<Rightarrow> world
     \<Rightarrow> ((DescribeCreateAccountStatusOutput option \<times> error option) \<times> world) option" where
  "describeLoop 0 client requestId w = None"
| "describeLoop (Suc fuel) client requestId w =
     (case callDescribe client requestId w of
        ((status, err), w') \<Rightarrow>
          (case err of
             Some e \<Rightarrow> Some ((Some emptyDescribeOutput, Some e), w')
           | None \<Rightarrow>
               (case status of
                  None \<Rightarrow> Some ((None, Some Panic), w')
                | Some st \<Rightarrow>
                    (case describeStatus st of
                       None \<Rightarrow> Some ((None, Some Panic), w')
                     | Some cas \<Rightarrow>
                         if casState cas = ''FAILED'' then
                           Some ((Some emptyDescribeOutput,
                                  Some (if casFailureReason cas = ''ACCOUNT_LIMIT_EXCEEDED''
                                        then ErrAwsAccountLimitExceeded
                                        else if casFailureReason cas = ''INTERNAL_FAILURE''
                                        then ErrAwsInternalFailure
                                        else ErrAwsFailedCreateAccount)), w')
                         else if casState cas \<noteq> ''IN_PROGRESS'' then
                           Some ((Some st, None), w')
                         else describeLoop fuel client requestId (sleep (10 * Second) w')))))"

text \<open>
  An error of \<open>CreateAccount\<close> is translated only when it is an operation error;
  otherwise \<open>returnErr\<close> keeps its zero value and the function returns an empty output
  with a nil error.
\<close>

definition CreateAccountV2 ::
  "nat \<Rightarrow> ClientV2 \<Rightarrow> string \<Rightarrow> string \<Rightarrow> world
     \<Rightarrow> ((DescribeCreateAccountStatusOutput option \<times> error option) \<times> world) option" where
  "CreateAccountV2 fuel client accountName accountEmail w =
     (let w1 = w\<lparr>trace := trace w @ [CallCreateAccount accountName accountEmail]\<rparr> in
      case CreateAccount client accountName accountEmail of
        (createOutput, Some err) \<Rightarrow>
          (let returnErr =
             (case err of
                OperationError s \<Rightarrow>
                  Some (if s = ''ConcurrentModificationException'' then ErrAwsConcurrentModification
                        else if s = ''ConstraintViolationException'' then ErrAwsAccountLimitExceeded
                        else if s = ''ServiceException'' then ErrAwsInternalFailure
                        else if s = ''TooManyRequestsException'' then ErrAwsTooManyRequests
                        else ErrAwsFailedCreateAccount)
              | _ \<Rightarrow> None)
           in Some ((Some emptyDescribeOutput, returnErr), w1))
      | (createOutput, None) \<Rightarrow>
          (case createOutput of
             None \<Rightarrow> Some ((None, Some Panic), w1)
           | Some out \<Rightarrow>
               (case createStatus out of
                  None \<Rightarrow> Some ((None, Some Panic), w1)
                | Some cas \<Rightarrow> describeLoop fuel client (casId cas) w1)))"

definition TagAccountV2 :: "ClientV2 \<Rightarrow> string \<Rightarrow> string \<Rightarrow> world \<Rightarrow> error option \<times> world" where
  "TagAccountV2 awsSetupClient awsAccountID shard w =
     (TagResource awsSetupClient awsAccountID shard,
      w\<lparr>trace := trace w @ [CallTagResource awsAccountID shard]\<rparr>)"

text \<open>
  \<open>BuildAccountV2\<close>: all three branches of the error switch return the error; the
  first one records the failure before.  After a success the account is read again (an
  error of that read is only logged) and \<open>*orgOutput.CreateAccountStatus.AccountId\<close>
  is returned.
\<close>

definition BuildAccountV2 ::
  "nat \<Rightarrow> Env \<Rightarrow> AccountReconcilerV2 \<Rightarrow> ClientV2 \<Rightarrow> Account \<Rightarrow> world
     \<Rightarrow> ((string \<times> error option) \<times> Account \<times> world) option" where
  "BuildAccountV2 fuel env r awsClient account w =
     (let email = formatAccountEmail (utils env) (Name (Meta account)) in
      case CreateAccountV2 fuel awsClient (Name (Meta account)) email w of
        None \<Rightarrow> None
      | Some ((orgOutput, Some orgErr), w1) \<Rightarrow>
          if orgErr = Panic then Some (([], Some Panic), account, w1)
          else if orgErr = ErrAwsFailedCreateAccount then
            (let account' = SetAccountStatus account ''Failed to create AWS Account''
                              v1alpha1_AccountCreationFailed AccountFailed
             in case statusUpdate r account' w1 of
                  (Some e, w2) \<Rightarrow> Some (([], Some e), account', w2)
                | (None, w2) \<Rightarrow> Some (([], Some orgErr), account', w2))
          else Some (([], Some orgErr), account, w1)
      | Some ((orgOutput, None), w1) \<Rightarrow>
          (let account' = (case kubeGet (Client r) w1 of Inl e \<Rightarrow> account | Inr a \<Rightarrow> a) in
           case orgOutput of
             None \<Rightarrow> Some (([], Some Panic), account', w1)
           | Some out \<Rightarrow>
               (case describeStatus out of
                  None \<Rightarrow> Some (([], Some Panic), account', w1)
                | Some cas \<Rightarrow>
                    (case casAccountId cas of
                       None \<Rightarrow> Some (([], Some Panic), account', w1)
                     | Some accountId \<Rightarrow> Some ((accountId, None), account', w1)))))"

definition nonCCSAssignAccountIDV2 ::
  "nat \<Rightarrow> Env \<Rightarrow> AccountReconcilerV2 \<Rightarrow> Account \<Rightarrow> ClientV2 option \<Rightarrow> world
     \<Rightarrow> (error option \<times> Account \<times> world) option" where
  "nonCCSAssignAccountIDV2 fuel env r currentAcctInstance awsSetupClient w =
     (case (if DetectDevMode (utils env) = DevModeProduction then
              (case awsSetupClient of
                 None \<Rightarrow> Some (([], Some Panic), currentAcctInstance, w)
               | Some c \<Rightarrow> BuildAccountV2 fuel env r c currentAcctInstance w)
            else Some ((''123456789012'', None), currentAcctInstance, w)) of
        None \<Rightarrow> None
      | Some ((awsAccountID, Some err), acct1, w1) \<Rightarrow> Some (Some err, acct1, w1)
      | Some ((awsAccountID, None), acct1, w1) \<Rightarrow>
          (let acct2 = SetAccountStatus acct1 AccountCreating v1alpha1_AccountCreating
                         AccountCreating
           in case statusUpdate r acct2 w1 of
                (Some e, w2) \<Rightarrow> Some (Some e, acct2, w2)
              | (None, w2) \<Rightarrow>
                  (let acct3 = (if DetectDevMode (utils env) \<noteq> DevModeProduction
                                then acct2\<lparr>Status := (Status acct2)\<lparr>SupportCaseID := ''11111111''\<rparr>\<rparr>
                                else acct2);
                       acct4 = acct3\<lparr>Spec := (Spec acct3)\<lparr>AwsAccountID := awsAccountID\<rparr>\<rparr>
                   in case awsSetupClient of
                        None \<Rightarrow> Some (Some Panic, acct4, w2)
                      | Some c \<Rightarrow>
                          (case TagAccountV2 c awsAccountID (shardName r) w2 of
                             (tagErr, w3) \<Rightarrow>
                               (case accountSpecUpdate r acct4 w3 of
                                  (err, w4) \<Rightarrow> Some (err, acct4, w4))))))"

subsection \<open>Reconcile\<close>

text \<open>
  An account with a deletion timestamp.  \<open>finalizeAccountV2\<close> is a placeholder without
  effect.
\<close>

definition reconcileDeletion ::
  "Env \<Rightarrow> AccountReconcilerV2 \<Rightarrow> Account \<Rightarrow> ClientV2 option \<Rightarrow> world
     \<Rightarrow> (Result \<times> error option) \<times> world" where
  "reconcileDeletion env r currentAcctInstance awsSetupClient w =
     (if ManualSTSMode (Spec currentAcctInstance) then
        (case removeFinalizer r currentAcctInstance (AccountFinalizer (api env)) w of
           (err, _, w') \<Rightarrow> ((emptyResult, err), w'))
      else
        (case awsSetupClient of
           None \<Rightarrow> ((emptyResult, Some Panic), sleep 500 w)
         | Some operatorClient \<Rightarrow>
             (let roleToAssume =
                    (if IsBYOC currentAcctInstance then GetAssumeRole (api env) currentAcctInstance
                     else AccountOperatorIAMRole (api env))
              in case HandleRoleAssumptionV2 (config env) (awsClientBuilder r) currentAcctInstance
                        operatorClient [] roleToAssume [] w of
                   (Inl err, w1) \<Rightarrow>
                     if err = Panic then ((emptyResult, Some Panic), w1)
                     else (case handleAWSClientErrorV2 r currentAcctInstance err w1 of
                             (ret, _, w2) \<Rightarrow> ((emptyResult, snd ret), w2))
                 | (Inr awsClient, w1) \<Rightarrow>
                     if IsNonSTSPendingDeletionWithFinalizer (api env) currentAcctInstance then
                       (case removeFinalizer r currentAcctInstance (AccountFinalizer (api env)) w1 of
                          (Some err, _, w2) \<Rightarrow> ((emptyResult, Some err), w2)
                        | (None, _, w2) \<Rightarrow> ((emptyResult, None), w2))
                     else ((emptyResult, None), w1))))"

text \<open>
  The branch \<open>if newBYOCAccountV2(...) { ... } else { ... }\<close>.  \<open>Inl\<close> is a return
  of \<open>Reconcile\<close>, \<open>Inr\<close> the account with which the function goes on.
\<close>

definition reconcileBYOC ::
  "AccountReconcilerV2 \<Rightarrow> Account \<Rightarrow> world \<Rightarrow> ((Result \<times> error option) + Account) \<times> world" where
  "reconcileBYOC r currentAcctInstance w =
     (case initializeNewCCSAccountV2 of
        (result, Some initErr) \<Rightarrow>
          (case setAccountFailedV2 r currentAcctInstance v1alpha1_AccountCreationFailed
                  (errorString initErr) ''Failed to initialize new CCS account'' AccountFailed w of
             (_, _, w') \<Rightarrow> (Inl (result, Some initErr), w'))
      | (result, None) \<Rightarrow>
          (let acct = SetAccountStatus currentAcctInstance AccountCreating v1alpha1_AccountCreating
                        AccountCreating
           in case statusUpdate r acct w of
                (Some updateErr, w') \<Rightarrow> (Inl (emptyResult, Some updateErr), w')
              | (None, w') \<Rightarrow> (Inr acct, w')))"

definition creationTimeoutMessage :: "Utils \<Rightarrow> string" where
  "creationTimeoutMessage u =
     ''Creation pending for longer than '' @ decimal (WaitTime u) @ '' minutes''"

definition reconcileNonCCS ::
  "nat \<Rightarrow> Env \<Rightarrow> AccountReconcilerV2 \<Rightarrow> Account \<Rightarrow> ClientV2 option \<Rightarrow> world
     \<Rightarrow> (((Result \<times> error option) + Account) \<times> world) option" where
  "reconcileNonCCS fuel env r currentAcctInstance awsSetupClient w =
     (if IsPendingVerification currentAcctInstance then
        Some (Inl HandleNonCCSPendingVerificationV2, w)
      else if IsReadyUnclaimedAndHasClaimLink currentAcctInstance then
        Some (Inl (emptyResult, ClaimAccountV2), w)
      else if IsCreating currentAcctInstance \<and>
              CreationConditionOlderThan (utils env) currentAcctInstance (createPendTime (utils env)) then
        (let errMsg = creationTimeoutMessage (utils env) in
         case setAccountFailedV2 r currentAcctInstance v1alpha1_AccountCreationFailed
                ''CreationTimeout'' errMsg AccountFailed w of
           ((_, Some stateErr), _, w') \<Rightarrow> Some (Inl (emptyResult, Some stateErr), w')
         | ((_, None), _, w') \<Rightarrow> Some (Inl (emptyResult, Some (ErrMsg errMsg)), w'))
      else if IsUnclaimedAndHasNoState currentAcctInstance then
        (if \<not> HasAwsAccountID currentAcctInstance then
           (if \<not> AccountsCanBeCreated (utils env) \<and> \<not> IsFedramp (config env) then
              Some (Inl (\<lparr>Requeue = True, RequeueAfter = 5 * Minute\<rparr>, None), w)
            else
              (case nonCCSAssignAccountIDV2 fuel env r currentAcctInstance awsSetupClient w of
                 None \<Rightarrow> None
               | Some (Some err, _, w') \<Rightarrow> Some (Inl (emptyResult, Some err), w')
               | Some (None, acct, w') \<Rightarrow> Some (Inr acct, w')))
         else
           (let acct = SetAccountStatus currentAcctInstance ''AWS account already created''
                         v1alpha1_AccountCreating AccountCreating
            in case statusUpdate r acct w of
                 (Some err, w') \<Rightarrow> Some (Inl (emptyResult, Some err), w')
               | (None, w') \<Rightarrow> Some (Inr acct, w')))
      else Some (Inr currentAcctInstance, w))"

text \<open>
  The rest of \<open>Reconcile\<close>: region enablement, the owner of the images, and the
  initialization.  The functions called here are placeholders, so none of their error
  branches can be taken; adding the label of the IAM user is modelled as appending to the
  labels.
\<close>

definition reconcileInit ::
  "Env \<Rightarrow> AccountReconcilerV2 \<Rightarrow> Account \<Rightarrow> ClientV2 option \<Rightarrow> (string \<Rightarrow> string option) \<Rightarrow> bool
     \<Rightarrow> string \<Rightarrow> world \<Rightarrow> (Result \<times> error option) \<times> world" where
  "reconcileInit env r currentAcctInstance awsSetupClient configMap isOptInRegionFeatureEnabled
       optInRegions w =
     (if (ReadyForRegionEnablement (api env) currentAcctInstance \<or>
          IsEnablingOptInRegions (api env) currentAcctInstance) \<and>
         isOptInRegionFeatureEnabled \<and> optInRegions \<noteq> [] then
        (handleOptInRegionEnablementV2, w)
      else
        (case configMap ''ami-owner'' of
           None \<Rightarrow> ((emptyResult, Some ErrInvalidConfigMap), w)
         | Some amiOwner \<Rightarrow>
             if ReadyForInitialization (api env) currentAcctInstance then
               (let setReady = (\<lambda>w0.
                      let acct = SetAccountStatus currentAcctInstance AccountReady
                                   v1alpha1_AccountReady AccountReady
                      in case statusUpdate r acct w0 of
                           (Some err, w') \<Rightarrow> ((emptyResult, Some err), w')
                         | (None, w') \<Rightarrow> ((emptyResult, None), w'))
                in if ManualSTSMode (Spec currentAcctInstance) then
                     (case getAccountClaim r currentAcctInstance of
                        (accountClaim, Some acctClaimErr) \<Rightarrow>
                          (let claim = SetAccountClaimStatus accountClaim
                                         ''Failed to get AccountClaim for CSS account''
                                         ''FailedRetrievingAccountClaim'' ''ClientError'' ''Error''
                           in ((emptyResult, Some acctClaimErr),
                               w\<lparr>trace := trace w @ [KubeClaimStatusUpdate claim]\<rparr>))
                      | (accountClaim, None) \<Rightarrow>
                          (case getSTSClientV2 awsSetupClient of
                             (_, creds, Some err) \<Rightarrow> ((emptyResult, Some err), w)
                           | (_, creds, None) \<Rightarrow>
                               (case initializeRegionsV2 of
                                  Some err \<Rightarrow>
                                    if isAwsOptInErrorV2 (Some err)
                                    then ((\<lparr>Requeue = False,
                                            RequeueAfter = awsAccountInitRequeueDurationV2\<rparr>, None), w)
                                    else ((emptyResult, Some err), w)
                                | None \<Rightarrow> setReady w)))
                   else if \<not> AccountCRHasIAMUserIDLabel (utils env) currentAcctInstance then
                     (let acct = currentAcctInstance\<lparr>Meta := (Meta currentAcctInstance)
                            \<lparr>Labels := Labels (Meta currentAcctInstance) @
                               [(IAMUserIDLabel (api env), GenerateShortUID (utils env))]\<rparr>\<rparr>
                      in case kubeUpdate (Client r) acct w of
                           (err, w') \<Rightarrow> ((\<lparr>Requeue = True, RequeueAfter = 0\<rparr>, err), w'))
                   else
                     (case handleIAMUserCreationV2 of
                        (_, newCredentials, Some err) \<Rightarrow> ((emptyResult, Some err), w)
                      | (_, newCredentials, None) \<Rightarrow>
                          (case initializeRegionsV2 of
                             Some err \<Rightarrow>
                               if isAwsOptInErrorV2 (Some err)
                               then ((\<lparr>Requeue = False,
                                       RequeueAfter = awsAccountInitRequeueDurationV2\<rparr>, None), w)
                               else ((emptyResult, Some err), w)
                           | None \<Rightarrow> setReady w)))
             else ((emptyResult, None), w)))"

text \<open>
  \<open>Reconcile\<close> from the test for a deletion timestamp on, that is, once the account
  is fetched, the client of the operator is built and the finalizer is in place.
\<close>

definition reconcileFetched ::
  "nat \<Rightarrow> Env \<Rightarrow> AccountReconcilerV2 \<Rightarrow> Account \<Rightarrow> ClientV2 option
     \<Rightarrow> (string \<Rightarrow> string option) \<Rightarrow> bool \<Rightarrow> string \<Rightarrow> world
     \<Rightarrow> ((Result \<times> error option) \<times> world) option" where
  "reconcileFetched fuel env r currentAcctInstance awsSetupClient configMap
       isOptInRegionFeatureEnabled optInRegions w2 =
     (if IsPendingDeletion currentAcctInstance then
        Some (reconcileDeletion env r currentAcctInstance awsSetupClient w2)
      else if IsFailed currentAcctInstance then
        Some ((emptyResult, None), w2)
      else if IsInitializingRegions currentAcctInstance then
        Some (handleAccountInitializingRegionsV2, w2)
      else
        (case (if newBYOCAccountV2 currentAcctInstance
               then Some (reconcileBYOC r currentAcctInstance w2)
               else reconcileNonCCS fuel env r currentAcctInstance awsSetupClient w2) of
           None \<Rightarrow> None
         | Some (Inl ret, w3) \<Rightarrow> Some (ret, w3)
         | Some (Inr acct, w3) \<Rightarrow>
             Some (reconcileInit env r acct awsSetupClient configMap
                     isOptInRegionFeatureEnabled optInRegions w3)))"

text \<open>
  The input with which \<open>Reconcile\<close> builds the client of the operator: the secret
  of the operator in the namespace of the Account resources.
\<close>

definition operatorClientInput :: "Env \<Rightarrow> string \<Rightarrow> NewAwsClientInputV2" where
  "operatorClientInput env awsRegion =
     \<lparr>AwsCredsSecretIDKey = [], AwsCredsSecretAccessKey = [], AwsToken = [],
      AwsRegion = awsRegion, SecretName = AwsSecretName (utils env),
      NameSpace = AccountCrNamespace (api env)\<rparr>"

text \<open>
  \<open>Reconcile\<close>.  The first argument bounds the polls of the account creation; the
  result is \<open>None\<close> when that loop has not returned within them.
\<close>

definition Reconcile ::
  "nat \<Rightarrow> Env \<Rightarrow> AccountReconcilerV2 \<Rightarrow> world \<Rightarrow> ((Result \<times> error option) \<times> world) option" where
  "Reconcile fuel env r w =
     (case kubeGet (Client r) w of
        Inl err \<Rightarrow>
          if err = NotFound then Some ((emptyResult, None), w)
          else Some ((emptyResult, Some err), w)
      | Inr acct0 \<Rightarrow>
          (case GetOperatorConfigMap (utils env) of
             Inl err \<Rightarrow> Some ((emptyResult, Some err), w)
           | Inr configMap \<Rightarrow>
               (let isOptInRegionFeatureEnabled =
                      (case GetFeatureFlagValue (utils env) configMap ''feature.opt_in_regions'' of
                         (v, None) \<Rightarrow> v
                       | (v, Some err) \<Rightarrow> False);
                    optInRegions = (case configMap ''opt-in-regions'' of Some v \<Rightarrow> v | None \<Rightarrow> []);
                    awsRegion = GetDefaultRegion (config env);
                    inp = operatorClientInput env awsRegion;
                    w1 = w\<lparr>trace := trace w @ [CallGetClientV2 controllerName inp]\<rparr>
                in case GetClientV2 (awsClientBuilder r) controllerName inp of
                     (_, Some err) \<Rightarrow> Some ((emptyResult, Some err), w1)
                   | (awsSetupClient, None) \<Rightarrow>
                       (case (if \<not> ManualSTSMode (Spec acct0) then addFinalizer env r acct0 w1
                              else (None, acct0, w1)) of
                          (Some err, _, w2) \<Rightarrow> Some ((emptyResult, Some err), w2)
                        | (None, currentAcctInstance, w2) \<Rightarrow>
                            reconcileFetched fuel env r currentAcctInstance awsSetupClient
                              configMap isOptInRegionFeatureEnabled optInRegions w2))))"

text \<open>The events that are calls of the cloud provider.\<close>

fun providerCall :: "event \<Rightarrow> bool" where
  "providerCall (CallAssumeRole _) = True"
| "providerCall (CallCreateAccount _ _) = True"
| "providerCall (CallDescribeCreateAccountStatus _) = True"
| "providerCall (CallTagResource _ _) = True"
| "providerCall _ = False"

fun isCreateAccount :: "event \<Rightarrow> bool" where
  "isCreateAccount (CallCreateAccount _ _) = True"
| "isCreateAccount _ = False"

subsection \<open>A concrete deployment\<close>

text \<open>
  A production deployment with a wait time of 25 minutes, used to run the reconciler on
  concrete accounts.  The arguments switch FedRAMP, the account-creation budget and the
  age of the creation condition.
\<close>

definition utils0 :: "bool \<Rightarrow> bool \<Rightarrow> Utils" where
  "utils0 budget old =
     \<lparr>GetOperatorConfigMap = Inr (map_of [(''ami-owner'', ''123456789012'')]),
      GetFeatureFlagValue = (\<lambda>configMap key. (configMap key = Some ''true'', None)),
      WaitTime = 25,
      DetectDevMode = DevModeProduction,
      CreationConditionOlderThan = (\<lambda>account duration. old),
      AccountCRHasIAMUserIDLabel = (\<lambda>account. map_of (Labels (Meta account)) ''iamUserId'' \<noteq> None),
      GenerateShortUID = ''abcdef'',
      AwsSecretName = ''aws-account-operator-credentials'',
      AccountsCanBeCreated = budget,
      formatAccountEmail = (\<lambda>name. ''osd-creds-mgmt+'' @ name @ ''@example.com'')\<rparr>"

definition api0 :: Api where
  "api0 =
     \<lparr>AccountFinalizer = ''finalizer.aws.managed.openshift.io'',
      AccountCrNamespace = ''aws-account-operator'',
      AccountOperatorIAMRole = ''OrganizationAccountAccessRole'',
      IAMUserIDLabel = ''iamUserId'',
      GetAssumeRole = (\<lambda>account. ''BYOCAdminAccess''),
      ReadyForRegionEnablement = (\<lambda>account. False),
      IsEnablingOptInRegions = (\<lambda>account. False),
      ReadyForInitialization = (\<lambda>account. State (Status account) = ''Creating'')\<rparr>"

definition env0 :: "bool \<Rightarrow> bool \<Rightarrow> bool \<Rightarrow> Env" where
  "env0 fedramp budget old =
     \<lparr>config = config0\<lparr>IsFedramp := fedramp\<rparr>, utils = utils0 budget old, api = api0\<rparr>"

definition emptyClaim :: AccountClaim where
  "emptyClaim =
     \<lparr>claimMeta = \<lparr>Name = [], Namespace = [], Finalizers = [], DeletionTimestamp = None,
                   Labels = [], ResourceVersion = 0\<rparr>,
      claimSpec = \<lparr>claimLegalEntity = \<lparr>leName = [], leID = []\<rparr>, AccountLink = [],
                   claimAccountPool = [], claimBYOC = False\<rparr>,
      claimStatus = \<lparr>claimState = [], claimConditions = []\<rparr>\<rparr>"

definition kube0 :: KubeClient where
  "kube0 =
     \<lparr>GetErr = None,
      UpdateErr = (\<lambda>account. None),
      StatusUpdateErr = (\<lambda>account. None),
      GetAccountClaim = (emptyClaim, Some NotFound),
      ClaimStatusUpdateErr = (\<lambda>claim. None)\<rparr>"

definition reconciler0 :: AccountReconcilerV2 where
  "reconciler0 =
     \<lparr>Client = kube0,
      awsClientBuilder = \<lparr>GetClientV2 = (\<lambda>name inp. (Some nullClient, None))\<rparr>,
      shardName = ''hive-shard-1''\<rparr>"

definition setupClientInput :: NewAwsClientInputV2 where
  "setupClientInput =
     \<lparr>AwsCredsSecretIDKey = [], AwsCredsSecretAccessKey = [], AwsToken = [],
      AwsRegion = ''us-east-1'', SecretName = ''aws-account-operator-credentials'',
      NameSpace = ''aws-account-operator''\<rparr>"

text \<open>
  Three accounts of the pool, none of them BYOC, in STS mode or pending deletion: one in
  state Creating that carries the finalizer, one in state Failed that does not carry it
  yet, and a new one without state and without provider account ID.
\<close>

definition creatingAccount :: Account where
  "creatingAccount =
     account0\<lparr>Meta := (Meta account0)\<lparr>Finalizers := [''finalizer.aws.managed.openshift.io'']\<rparr>,
              Status := (Status account0)\<lparr>State := ''Creating''\<rparr>\<rparr>"

definition failedAccount :: Account where
  "failedAccount = account0\<lparr>Status := (Status account0)\<lparr>State := ''Failed''\<rparr>\<rparr>"

definition newAccount :: Account where
  "newAccount =
     account0\<lparr>Meta := (Meta account0)\<lparr>Finalizers := [''finalizer.aws.managed.openshift.io'']\<rparr>,
              Spec := (Spec account0)\<lparr>AwsAccountID := []\<rparr>\<rparr>"

subsection \<open>Reading the outcome of a reconciliation\<close>

definition returned ::
  "((Result \<times> error option) \<times> world) option \<Rightarrow> (Result \<times> error option) option" where
  "returned x = map_option fst x"

definition storedAfter :: "((Result \<times> error option) \<times> world) option \<Rightarrow> Account option" where
  "storedAfter x = (case x of None \<Rightarrow> None | Some (ret, w) \<Rightarrow> stored w)"

definition statusAfter :: "((Result \<times> error option) \<times> world) option \<Rightarrow> AccountStatus option" where
  "statusAfter x = map_option Status (storedAfter x)"

definition traceAfter :: "((Result \<times> error option) \<times> world) option \<Rightarrow> event list" where
  "traceAfter x = (case x of None \<Rightarrow> [] | Some (ret, w) \<Rightarrow> trace w)"

text \<open>The later world continues the trace of the earlier one with events that all satisfy \<open>P\<close>.\<close>

definition onlyEvents :: "(event \<Rightarrow> bool) \<Rightarrow> world \<Rightarrow> world \<Rightarrow> bool" where
  "onlyEvents P w w' = (\<exists>evs. trace w' = trace w @ evs \<and> list_all P evs)"

definition notCreateAccount :: "event \<Rightarrow> bool" where
  "notCreateAccount e = (\<not> isCreateAccount e)"

text \<open>Neither a call of the provider nor a write of the account status.\<close>

fun quietEvent :: "event \<Rightarrow> bool" where
  "quietEvent (KubeStatusUpdate _) = False"
| "quietEvent e = (\<not> providerCall e)"

definition withFinalizer :: "Api \<Rightarrow> Account \<Rightarrow> Account" where
  "withFinalizer ap a =
     a\<lparr>Meta := (Meta a)\<lparr>Finalizers := Finalizers (Meta a) @ [AccountFinalizer ap]\<rparr>\<rparr>"

section \<open>Claim controller (package accountclaim)\<close>

text \<open>
  Modelled from the spec: the claim controller (the pool matcher and the handling of a
  deleted claim) is missing; of package \<open>accountclaim\<close> only the test suite is
  present.  The definitions of this section follow sections 4.2, 4.4, 7 and 8 of the
  specification, and they are run below on the scenarios of the test suite, whose
  expectations they meet.
\<close>

subsection \<open>Pool matcher\<close>

text \<open>
  Modelled from the spec: the target pool is the explicit value of the claim, else the
  pool marked default in the configuration; an account without a pool name belongs to
  the default pool.
\<close>

definition effectivePool :: "string \<Rightarrow> string \<Rightarrow> string" where
  "effectivePool defaultPool pool = (if pool = [] then defaultPool else pool)"

definition targetPool :: "string \<Rightarrow> AccountClaim \<Rightarrow> string" where
  "targetPool defaultPool claim = effectivePool defaultPool (claimAccountPool (claimSpec claim))"

text \<open>
  Modelled from the spec: the candidates are the accounts with \<open>State=Ready\<close>,
  \<open>Claimed=false\<close> and the pool name equal to the target (empty pool name for default).
\<close>

definition candidate :: "string \<Rightarrow> AccountClaim \<Rightarrow> Account \<Rightarrow> bool" where
  "candidate defaultPool claim a =
     (State (Status a) = ''Ready'' \<and> \<not> Claimed (Status a) \<and>
      effectivePool defaultPool (AccountPool (Spec a)) = targetPool defaultPool claim)"

text \<open>
  Modelled from the spec: the order of the tie-break.  A reused account of the legal
  entity of the claim ranks above every other account, a reused account above one that
  was never claimed.
\<close>

definition matchesLegalEntity :: "AccountClaim \<Rightarrow> Account \<Rightarrow> bool" where
  "matchesLegalEntity claim a = (LegalEntity (Spec a) = claimLegalEntity (claimSpec claim))"

definition accountRank :: "AccountClaim \<Rightarrow> Account \<Rightarrow> nat" where
  "accountRank claim a =
     (if Reused (Status a) \<and> matchesLegalEntity claim a then 2
      else if Reused (Status a) then 1 else 0)"

text \<open>
  Modelled from the spec: one pass over the candidates in the order of the listing keeps
  the best account seen so far and replaces it only by an account of higher rank, so that
  the first listed wins among equals.
\<close>

fun selectAccount :: "AccountClaim \<Rightarrow> Account option \<Rightarrow> Account list \<Rightarrow> Account option" where
  "selectAccount claim best [] = best"
| "selectAccount claim best (a # as) =
     (case best of
        None \<Rightarrow> selectAccount claim (Some a) as
      | Some b \<Rightarrow>
          if accountRank claim b < accountRank claim a then selectAccount claim (Some a) as
          else selectAccount claim best as)"

definition getUnclaimedAccount :: "string \<Rightarrow> AccountClaim \<Rightarrow> Account list \<Rightarrow> Account option" where
  "getUnclaimedAccount defaultPool claim accounts =
     selectAccount claim None (filter (candidate defaultPool claim) accounts)"

text \<open>
  Modelled from the spec: binding sets the claim link and the claimed flag of the account
  and the account link of the claim.
\<close>

definition bindAccount :: "AccountClaim \<Rightarrow> Account \<Rightarrow> Account" where
  "bindAccount claim a =
     a\<lparr>Spec := (Spec a)\<lparr>ClaimLink := Name (claimMeta claim),
                          ClaimLinkNamespace := Namespace (claimMeta claim)\<rparr>,
       Status := (Status a)\<lparr>Claimed := True\<rparr>\<rparr>"

definition bindClaim :: "AccountClaim \<Rightarrow> Account \<Rightarrow> AccountClaim" where
  "bindClaim claim a = claim\<lparr>claimSpec := (claimSpec claim)\<lparr>AccountLink := Name (Meta a)\<rparr>\<rparr>"

definition claimFromPool ::
  "string \<Rightarrow> AccountClaim \<Rightarrow> Account list \<Rightarrow> (Account \<times> AccountClaim) option" where
  "claimFromPool defaultPool claim accounts =
     (case getUnclaimedAccount defaultPool claim accounts of
        None \<Rightarrow> None
      | Some a \<Rightarrow> Some (bindAccount claim a, bindClaim claim a))"

text \<open>The name of the account that a binding has taken.\<close>

definition boundAccountName :: "(Account \<times> AccountClaim) option \<Rightarrow> string option" where
  "boundAccountName b = map_option (AccountLink \<circ> claimSpec \<circ> snd) b"

subsection \<open>The scenarios of the test suite of the pool matcher\<close>

definition poolAccount :: "string \<Rightarrow> string \<Rightarrow> LegalEntity \<Rightarrow> bool \<Rightarrow> Account" where
  "poolAccount name pool entity reused =
     \<lparr>Meta = \<lparr>Name = name, Namespace = ''aws-account-operator'', Finalizers = [],
              DeletionTimestamp = None, Labels = [], ResourceVersion = 1\<rparr>,
      Spec = \<lparr>AwsAccountID = [], BYOC = False, ManualSTSMode = False, ClaimLink = [],
              ClaimLinkNamespace = [], LegalEntity = entity, AccountPool = pool\<rparr>,
      Status = \<lparr>State = ''Ready'', Claimed = False, Reused = reused, Conditions = [],
                SupportCaseID = []\<rparr>\<rparr>"

definition poolClaim :: "string \<Rightarrow> string \<Rightarrow> LegalEntity \<Rightarrow> AccountClaim" where
  "poolClaim name pool entity =
     \<lparr>claimMeta = \<lparr>Name = name, Namespace = ''aws-account-operator'',
                   Finalizers = [''finalizer.aws.managed.openshift.io''],
                   DeletionTimestamp = None, Labels = [], ResourceVersion = 1\<rparr>,
      claimSpec = \<lparr>claimLegalEntity = entity, AccountLink = [], claimAccountPool = pool,
                   claimBYOC = False\<rparr>,
      claimStatus = \<lparr>claimState = [], claimConditions = []\<rparr>\<rparr>"

definition noEntity :: LegalEntity where
  "noEntity = \<lparr>leName = [], leID = []\<rparr>"

definition legalEntity1 :: LegalEntity where
  "legalEntity1 = \<lparr>leName = ''test1'', leID = ''abcdefg''\<rparr>"

definition legalEntity2 :: LegalEntity where
  "legalEntity2 = \<lparr>leName = ''test2'', leID = ''hijklmno''\<rparr>"

definition defaultAccountPoolName :: string where
  "defaultAccountPoolName = ''my-default-accountpool''"

definition sqAccountPoolName :: string where
  "sqAccountPoolName = ''my-service-quota-accountpool''"

text \<open>The two accounts of the scenario "both account types are available".\<close>

definition bothAccounts :: "Account list" where
  "bothAccounts =
     [poolAccount ''default-account'' defaultAccountPoolName noEntity False,
      poolAccount ''service-quota-account'' sqAccountPoolName noEntity False]"

subsection \<open>Deleting a claim\<close>

text \<open>
  Modelled from the spec: the control plane as the claim controller sees it, one claim
  and the accounts of the pool.  A write is rejected with a conflict when the resource
  version of the object written is not the stored one (section 5), an accepted write
  advances the version, and an object with a deletion timestamp is removed when its last
  finalizer is dropped (section 6).
\<close>

record ClaimStore =
  storeClaim :: "AccountClaim option"
  storeAccounts :: "Account list"

definition getAccount :: "string \<Rightarrow> ClaimStore \<Rightarrow> Account option" where
  "getAccount name s = find (\<lambda>a. Name (Meta a) = name) (storeAccounts s)"

definition nextVersion :: "Account \<Rightarrow> Account" where
  "nextVersion a = a\<lparr>Meta := (Meta a)\<lparr>ResourceVersion := Suc (ResourceVersion (Meta a))\<rparr>\<rparr>"

definition replaceAccount :: "string \<Rightarrow> (Account \<Rightarrow> Account) \<Rightarrow> ClaimStore \<Rightarrow> ClaimStore" where
  "replaceAccount name f s =
     s\<lparr>storeAccounts := map (\<lambda>c. if Name (Meta c) = name then f c else c) (storeAccounts s)\<rparr>"

definition updateAccount :: "Account \<Rightarrow> ClaimStore \<Rightarrow> error + ClaimStore" where
  "updateAccount a s =
     (case getAccount (Name (Meta a)) s of
        None \<Rightarrow> Inl NotFound
      | Some b \<Rightarrow>
          if ResourceVersion (Meta a) \<noteq> ResourceVersion (Meta b) then Inl Conflict
          else Inr (replaceAccount (Name (Meta a)) (\<lambda>c. nextVersion a) s))"

definition updateClaim :: "AccountClaim \<Rightarrow> ClaimStore \<Rightarrow> error + ClaimStore" where
  "updateClaim c s =
     (case storeClaim s of
        None \<Rightarrow> Inl NotFound
      | Some b \<Rightarrow>
          if ResourceVersion (claimMeta c) \<noteq> ResourceVersion (claimMeta b) then Inl Conflict
          else if DeletionTimestamp (claimMeta c) \<noteq> None \<and> Finalizers (claimMeta c) = [] then
            Inr (s\<lparr>storeClaim := None\<rparr>)
          else Inr (s\<lparr>storeClaim := Some (c\<lparr>claimMeta := (claimMeta c)
                        \<lparr>ResourceVersion := Suc (ResourceVersion (claimMeta c))\<rparr>\<rparr>)\<rparr>))"

text \<open>
  Modelled from the spec: a write of another controller to the account, which lands
  between the read and the write of this one and leaves a newer version in the store.
\<close>

definition touchAccount :: "string \<Rightarrow> ClaimStore \<Rightarrow> ClaimStore" where
  "touchAccount name s = replaceAccount name nextVersion s"

text \<open>
  Modelled from the spec: the teardown attempts every category of resources, whatever
  the others did, and collects the failures (section 4.4).  The categories are those the
  test suite expects a call for.
\<close>

datatype category =
    HostedZones
  | Buckets
  | VpcEndpointServiceConfigurations
  | Snapshots
  | Volumes

definition categories :: "category list" where
  "categories = [HostedZones, Buckets, VpcEndpointServiceConfigurations, Snapshots, Volumes]"

definition teardownFailures :: "(category \<Rightarrow> error option) \<Rightarrow> (category \<times> error) list" where
  "teardownFailures cleanup =
     concat (map (\<lambda>c. case cleanup c of None \<Rightarrow> [] | Some e \<Rightarrow> [(c, e)]) categories)"

text \<open>
  Modelled from the spec: the account goes back to the pool with the claim link cleared,
  \<open>Claimed=false\<close>, \<open>State=Ready\<close> and \<open>Reused=true\<close> (section 8).
\<close>

definition resetAccount :: "Account \<Rightarrow> Account" where
  "resetAccount a =
     a\<lparr>Spec := (Spec a)\<lparr>ClaimLink := [], ClaimLinkNamespace := []\<rparr>,
       Status := (Status a)\<lparr>Claimed := False, State := ''Ready'', Reused := True\<rparr>\<rparr>"

definition accountClaimFinalizer :: string where
  "accountClaimFinalizer = ''finalizer.aws.managed.openshift.io''"

definition dropFinalizer :: "AccountClaim \<Rightarrow> AccountClaim" where
  "dropFinalizer claim =
     claim\<lparr>claimMeta := (claimMeta claim)
       \<lparr>Finalizers := Remove (Finalizers (claimMeta claim)) accountClaimFinalizer\<rparr>\<rparr>"

text \<open>What the outside does during one reconciliation of a deleted claim.\<close>

record attempt =
  cleanup :: "category \<Rightarrow> error option"
  concurrentWrite :: bool

text \<open>
  Modelled from the spec: one reconciliation of a claim.  A claim that is not deleted, or
  that other finalizers still hold, is left alone.  For a deleted claim the account is
  read afresh; a BYOC account is deleted with its claim; otherwise the teardown runs, and
  only a teardown without failures is followed by the reset of the account and then by
  the removal of the finalizer.  A rejected write ends the reconciliation with an error,
  so that it is run again.
\<close>

definition finalizeAccountClaim :: "attempt \<Rightarrow> ClaimStore \<Rightarrow> error option \<times> ClaimStore" where
  "finalizeAccountClaim att s =
     (case storeClaim s of
        None \<Rightarrow> (None, s)
      | Some claim \<Rightarrow>
          if DeletionTimestamp (claimMeta claim) = None then (None, s)
          else if Finalizers (claimMeta claim) \<noteq> [accountClaimFinalizer] then (None, s)
          else
            (case getAccount (AccountLink (claimSpec claim)) s of
               None \<Rightarrow> (Some NotFound, s)
             | Some account \<Rightarrow>
                 if BYOC (Spec account) then
                   (let s1 = s\<lparr>storeAccounts :=
                               filter (\<lambda>c. Name (Meta c) \<noteq> Name (Meta account)) (storeAccounts s)\<rparr>
                    in case updateClaim (dropFinalizer claim) s1 of
                         Inl e \<Rightarrow> (Some e, s1)
                       | Inr s2 \<Rightarrow> (None, s2))
                 else
                   (case teardownFailures (cleanup att) of
                      f # fs \<Rightarrow> (Some (ErrMsg ''failed to clean up AWS account''), s)
                    | [] \<Rightarrow>
                        (let s1 = (if concurrentWrite att
                                   then touchAccount (Name (Meta account)) s else s)
                         in case updateAccount (resetAccount account) s1 of
                              Inl e \<Rightarrow>
                                (Some (ErrMsg (''account CR modified during reset: '' @
                                                errorString e)), s1)
                            | Inr s2 \<Rightarrow>
                                (case updateClaim (dropFinalizer claim) s2 of
                                   Inl e \<Rightarrow> (Some e, s2)
                                 | Inr s3 \<Rightarrow> (None, s3))))))"

text \<open>
  Modelled from the spec: a reconciliation that returns an error is run again; the list
  holds what happens during each run, and the error of the last run is the outcome when
  the list is used up.
\<close>

fun requeue :: "attempt list \<Rightarrow> error option \<times> ClaimStore \<Rightarrow> error option \<times> ClaimStore" where
  "requeue [] outcome = outcome"
| "requeue (att # atts) (err, s) =
     (case err of
        None \<Rightarrow> (None, s)
      | Some e \<Rightarrow> requeue atts (finalizeAccountClaim att s))"

definition reconcileUntilDone :: "attempt list \<Rightarrow> ClaimStore \<Rightarrow> error option \<times> ClaimStore" where
  "reconcileUntilDone atts s =
     (case atts of
        [] \<Rightarrow> (None, s)
      | att # rest \<Rightarrow> requeue rest (finalizeAccountClaim att s))"

text \<open>
  The situation of the deletion flow: the store holds the claim \<open>claim\<close>, deleted and
  held by the finalizer of the controller alone, and its link names the account
  \<open>account\<close>, which is not BYOC.
\<close>

definition deletedClaimOf :: "ClaimStore \<Rightarrow> AccountClaim \<Rightarrow> Account \<Rightarrow> bool" where
  "deletedClaimOf s claim account =
     (storeClaim s = Some claim \<and>
      DeletionTimestamp (claimMeta claim) \<noteq> None \<and>
      Finalizers (claimMeta claim) = [accountClaimFinalizer] \<and>
      getAccount (AccountLink (claimSpec claim)) s = Some account \<and>
      \<not> BYOC (Spec account))"

text \<open>The end of the flow: the claim is gone and the account is back in the pool.\<close>

definition released :: "ClaimStore \<Rightarrow> string \<Rightarrow> bool" where
  "released s name =
     (storeClaim s = None \<and>
      (case getAccount name s of
         None \<Rightarrow> False
       | Some a \<Rightarrow>
           ClaimLink (Spec a) = [] \<and> ClaimLinkNamespace (Spec a) = [] \<and>
           \<not> Claimed (Status a) \<and> State (Status a) = ''Ready'' \<and> Reused (Status a)))"

definition cleanAttempt :: "bool \<Rightarrow> attempt" where
  "cleanAttempt conflict = \<lparr>cleanup = (\<lambda>c. None), concurrentWrite = conflict\<rparr>"

definition failingAttempt :: attempt where
  "failingAttempt = \<lparr>cleanup = (\<lambda>c. Some (ErrMsg ''foo: bar'')), concurrentWrite = False\<rparr>"

text \<open>The claim and the account of the tests of a claim marked for deletion.\<close>

definition deletedClaim :: AccountClaim where
  "deletedClaim =
     \<lparr>claimMeta = \<lparr>Name = ''testAccountClaim'', Namespace = ''myAccountClaimNamespace'',
                   Finalizers = [''finalizer.aws.managed.openshift.io''],
                   DeletionTimestamp = Some 1, Labels = [], ResourceVersion = 1\<rparr>,
      claimSpec = \<lparr>claimLegalEntity = \<lparr>leName = ''LegalCorp. Inc.'', leID = ''abcdefg123456''\<rparr>,
                   AccountLink = ''osd-creds-mgmt-aaabbb'', claimAccountPool = [],
                   claimBYOC = False\<rparr>,
      claimStatus = \<lparr>claimState = [], claimConditions = []\<rparr>\<rparr>"

definition claimedAccount :: Account where
  "claimedAccount =
     \<lparr>Meta = \<lparr>Name = ''osd-creds-mgmt-aaabbb'', Namespace = ''aws-account-operator'',
              Finalizers = [], DeletionTimestamp = None, Labels = [], ResourceVersion = 1\<rparr>,
      Spec = \<lparr>AwsAccountID = [], BYOC = False, ManualSTSMode = False,
              ClaimLink = ''testAccountClaim'', ClaimLinkNamespace = ''myAccountClaimNamespace'',
              LegalEntity = \<lparr>leName = ''LegalCorp. Inc.'', leID = ''abcdefg123456''\<rparr>,
              AccountPool = []\<rparr>,
      Status = \<lparr>State = ''Ready'', Claimed = True, Reused = False, Conditions = [],
                SupportCaseID = []\<rparr>\<rparr>"

definition deletionStore :: ClaimStore where
  "deletionStore = \<lparr>storeClaim = Some deletedClaim, storeAccounts = [claimedAccount]\<rparr>"

section \<open>Properties of the client wrapper\<close>

text \<open>
  C10: for every bucket name (a nil pointer included) the SDK v2 client's
  \<open>BatchDeleteBucketObjects\<close> returns a non-nil error, so a caller that empties a
  bucket through it is always told that the deletion failed.
\<close>

theorem BatchDeleteBucketObjects_always_fails:
  "BatchDeleteBucketObjects bucketName \<noteq> None"
  by (simp add: BatchDeleteBucketObjects_def)

section \<open>Properties of the credential chain builder\<close>

lemma attempts_Suc: "attempts inp (Suc k) = Sleep 500 # CallAssumeRole inp # attempts inp k"
  by (simp add: attempts_def)

lemma assumeRoleLoop_success:
  "k < n \<Longrightarrow> \<forall>j<k. snd (AssumeRole c (calls w + j) inp) \<noteq> None \<Longrightarrow>
   snd (AssumeRole c (calls w + k) inp) = None \<Longrightarrow>
   assumeRoleLoop c inp n cur w =
     (AssumeRole c (calls w + k) inp,
      w\<lparr>calls := calls w + Suc k, trace := trace w @ attempts inp (Suc k)\<rparr>)"
proof (induction n arbitrary: k cur w)
  case 0
  then show ?case by simp
next
  case (Suc n)
  let ?w1 = "w\<lparr>calls := Suc (calls w), trace := trace w @ [Sleep 500, CallAssumeRole inp]\<rparr>"
  have step: "callAssumeRole c inp (sleep 500 w) = (AssumeRole c (calls w) inp, ?w1)"
    by (simp add: callAssumeRole_def sleep_def)
  show ?case
  proof (cases k)
    case 0
    with Suc.prems step show ?thesis by (simp add: attempts_def)
  next
    case (Suc k')
    from Suc.prems(2) Suc have fail0: "snd (AssumeRole c (calls w) inp) \<noteq> None"
      by (metis add.right_neutral zero_less_Suc)
    have k': "k' < n" using Suc.prems(1) Suc by simp
    have fails: "\<forall>j<k'. snd (AssumeRole c (calls ?w1 + j) inp) \<noteq> None"
      using Suc.prems(2) Suc by (auto dest: spec[where x="Suc j" for j])
    have ok: "snd (AssumeRole c (calls ?w1 + k') inp) = None"
      using Suc.prems(3) Suc by simp
    have "assumeRoleLoop c inp n (AssumeRole c (calls w) inp) ?w1 =
        (AssumeRole c (calls ?w1 + k') inp,
         ?w1\<lparr>calls := calls ?w1 + Suc k', trace := trace ?w1 @ attempts inp (Suc k')\<rparr>)"
      by (rule Suc.IH[OF k' fails ok])
    moreover from fail0 obtain e where "snd (AssumeRole c (calls w) inp) = Some e"
      by auto
    ultimately show ?thesis using step Suc
      by (simp add: attempts_Suc)
  qed
qed

lemma assumeRoleLoop_exhausted:
  "\<forall>j<n. snd (AssumeRole c (calls w + j) inp) \<noteq> None \<Longrightarrow>
   assumeRoleLoop c inp n cur w =
     (if n = 0 then cur else AssumeRole c (calls w + (n - 1)) inp,
      w\<lparr>calls := calls w + n, trace := trace w @ attempts inp n\<rparr>)"
proof (induction n arbitrary: cur w)
  case 0
  then show ?case by (simp add: attempts_def)
next
  case (Suc n)
  let ?w1 = "w\<lparr>calls := Suc (calls w), trace := trace w @ [Sleep 500, CallAssumeRole inp]\<rparr>"
  have step: "callAssumeRole c inp (sleep 500 w) = (AssumeRole c (calls w) inp, ?w1)"
    by (simp add: callAssumeRole_def sleep_def)
  from Suc.prems have fail0: "snd (AssumeRole c (calls w) inp) \<noteq> None"
    by (metis add.right_neutral zero_less_Suc)
  have fails: "\<forall>j<n. snd (AssumeRole c (calls ?w1 + j) inp) \<noteq> None"
    using Suc.prems by (auto dest: spec[where x="Suc j" for j])
  have "assumeRoleLoop c inp n (AssumeRole c (calls w) inp) ?w1 =
     (if n = 0 then AssumeRole c (calls w) inp else AssumeRole c (calls ?w1 + (n - 1)) inp,
      ?w1\<lparr>calls := calls ?w1 + n, trace := trace ?w1 @ attempts inp n\<rparr>)"
    by (rule Suc.IH[OF fails])
  moreover from fail0 obtain e where "snd (AssumeRole c (calls w) inp) = Some e"
    by auto
  ultimately show ?case using step
    by (cases n) (simp_all add: attempts_Suc)
qed

text \<open>
  C1: for every role ARN, external ID and session name, \<open>GetSTSCredentialsV2\<close>
  sends an input whose session duration is 3600 seconds; every attempt is a 500 ms sleep
  followed by the call.  If the attempts before attempt \<open>k < 100\<close> fail and attempt
  \<open>k\<close> succeeds, the function returns the output of attempt \<open>k\<close> with a nil
  error after exactly \<open>k + 1\<close> attempts.  If all 100 attempts fail it returns, after
  exactly 100 attempts, an empty output together with the error of the last attempt: an
  ordinary return value, not a panic.
\<close>

theorem GetSTSCredentialsV2_retry:
  assumes "inp = assumeRoleInput roleArn externalID roleSessionName"
  shows "DurationSeconds inp = Some 3600 \<and>
    (\<forall>k<100.
       (\<forall>j<k. snd (AssumeRole client (calls w + j) inp) \<noteq> None) \<and>
       snd (AssumeRole client (calls w + k) inp) = None \<longrightarrow>
       GetSTSCredentialsV2 client roleArn externalID roleSessionName w =
         ((fst (AssumeRole client (calls w + k) inp), None),
          w\<lparr>calls := calls w + Suc k, trace := trace w @ attempts inp (Suc k)\<rparr>)) \<and>
    ((\<forall>j<100. snd (AssumeRole client (calls w + j) inp) \<noteq> None) \<longrightarrow>
       GetSTSCredentialsV2 client roleArn externalID roleSessionName w =
         ((Some emptyAssumeRoleOutput, snd (AssumeRole client (calls w + 99) inp)),
          w\<lparr>calls := calls w + 100, trace := trace w @ attempts inp 100\<rparr>) \<and>
       snd (AssumeRole client (calls w + 99) inp) \<noteq> None)"
proof (intro conjI allI impI)
  show "DurationSeconds inp = Some 3600"
    by (simp add: assms assumeRoleInput_def roleSessionDuration_def)
next
  fix k :: nat
  assume k: "k < 100"
    and h: "(\<forall>j<k. snd (AssumeRole client (calls w + j) inp) \<noteq> None) \<and>
       snd (AssumeRole client (calls w + k) inp) = None"
  have "assumeRoleLoop client inp 100 (Some emptyAssumeRoleOutput, None) w =
     (AssumeRole client (calls w + k) inp,
      w\<lparr>calls := calls w + Suc k, trace := trace w @ attempts inp (Suc k)\<rparr>)"
    using k h by (intro assumeRoleLoop_success) simp_all
  moreover obtain out where "AssumeRole client (calls w + k) inp = (out, None)"
    using h by (cases "AssumeRole client (calls w + k) inp") simp
  ultimately show "GetSTSCredentialsV2 client roleArn externalID roleSessionName w =
         ((fst (AssumeRole client (calls w + k) inp), None),
          w\<lparr>calls := calls w + Suc k, trace := trace w @ attempts inp (Suc k)\<rparr>)"
    by (simp add: GetSTSCredentialsV2_def assms)
next
  assume h: "\<forall>j<100. snd (AssumeRole client (calls w + j) inp) \<noteq> None"
  then have last: "snd (AssumeRole client (calls w + 99) inp) \<noteq> None"
    by simp
  then obtain out e where r: "AssumeRole client (calls w + 99) inp = (out, Some e)"
    by (cases "AssumeRole client (calls w + 99) inp") auto
  have "assumeRoleLoop client inp 100 (Some emptyAssumeRoleOutput, None) w =
     (AssumeRole client (calls w + 99) inp,
      w\<lparr>calls := calls w + 100, trace := trace w @ attempts inp 100\<rparr>)"
    using assumeRoleLoop_exhausted[OF h, of "(Some emptyAssumeRoleOutput, None)"] by simp
  with r show "GetSTSCredentialsV2 client roleArn externalID roleSessionName w =
         ((Some emptyAssumeRoleOutput, snd (AssumeRole client (calls w + 99) inp)),
          w\<lparr>calls := calls w + 100, trace := trace w @ attempts inp 100\<rparr>)"
    by (simp add: GetSTSCredentialsV2_def assms)
  from last show "snd (AssumeRole client (calls w + 99) inp) \<noteq> None" .
qed

theorem GetSTSCredentialsV2_retry_witness:
  "GetSTSCredentialsV2 (flakyClient 3) ''arn:aws:iam::123456789012:role/OrganizationAccountAccessRole'' [] ''awsAccountOperator'' world0 =
     ((Some okOutput, None),
      world0\<lparr>calls := 4, trace := attempts (assumeRoleInput ''arn:aws:iam::123456789012:role/OrganizationAccountAccessRole'' [] ''awsAccountOperator'') 4\<rparr>) \<and>
   GetSTSCredentialsV2 failingClient ''arn:aws:iam::123456789012:role/OrganizationAccountAccessRole'' [] ''awsAccountOperator'' world0 =
     ((Some emptyAssumeRoleOutput, Some (ErrMsg (replicate 99 CHR ''x''))),
      world0\<lparr>calls := 100, trace := attempts (assumeRoleInput ''arn:aws:iam::123456789012:role/OrganizationAccountAccessRole'' [] ''awsAccountOperator'') 100\<rparr>)"
proof -
  let ?arn = "''arn:aws:iam::123456789012:role/OrganizationAccountAccessRole''"
  let ?inp = "assumeRoleInput ?arn [] ''awsAccountOperator''"
  note t1 = GetSTSCredentialsV2_retry[of ?inp ?arn "[]" "''awsAccountOperator''" "flakyClient 3" world0, OF refl]
  note t2 = GetSTSCredentialsV2_retry[of ?inp ?arn "[]" "''awsAccountOperator''" failingClient world0, OF refl]
  from t1 have "(\<forall>j<3. snd (AssumeRole (flakyClient 3) (calls world0 + j) ?inp) \<noteq> None) \<and>
       snd (AssumeRole (flakyClient 3) (calls world0 + 3) ?inp) = None \<longrightarrow>
       GetSTSCredentialsV2 (flakyClient 3) ?arn [] ''awsAccountOperator'' world0 =
         ((fst (AssumeRole (flakyClient 3) (calls world0 + 3) ?inp), None),
          world0\<lparr>calls := calls world0 + Suc 3, trace := trace world0 @ attempts ?inp (Suc 3)\<rparr>)"
    by (elim conjE allE[where x=3]) simp
  then have a: "GetSTSCredentialsV2 (flakyClient 3) ?arn [] ''awsAccountOperator'' world0 =
     ((Some okOutput, None), world0\<lparr>calls := 4, trace := attempts ?inp 4\<rparr>)"
    by (simp add: flakyClient_def world0_def eval_nat_numeral)
  from t2 have b: "GetSTSCredentialsV2 failingClient ?arn [] ''awsAccountOperator'' world0 =
     ((Some emptyAssumeRoleOutput, Some (ErrMsg (replicate 99 CHR ''x''))),
      world0\<lparr>calls := 100, trace := attempts ?inp 100\<rparr>)"
    by (simp add: failingClient_def world0_def)
  from a b show ?thesis by simp
qed

text \<open>An assume-role call that succeeds at once costs one sleep and one call.\<close>

lemma GetSTSCredentialsV2_first_try:
  assumes "snd (AssumeRole client (calls w) (assumeRoleInput roleArn externalID name)) = None"
  shows "GetSTSCredentialsV2 client roleArn externalID name w =
    (AssumeRole client (calls w) (assumeRoleInput roleArn externalID name),
     w\<lparr>calls := Suc (calls w),
       trace := trace w @ [Sleep 500, CallAssumeRole (assumeRoleInput roleArn externalID name)]\<rparr>)"
proof -
  obtain out where "AssumeRole client (calls w) (assumeRoleInput roleArn externalID name) = (out, None)"
    using assms by (cases "AssumeRole client (calls w) (assumeRoleInput roleArn externalID name)") simp
  then show ?thesis
    by (simp add: GetSTSCredentialsV2_def eval_nat_numeral callAssumeRole_def sleep_def)
qed

lemma backoffRounds_0: "backoffRounds inp i 0 = []"
  by (simp add: backoffRounds_def)

lemma backoffRounds_Suc:
  "backoffRounds inp i (Suc k) = [Sleep 500, CallAssumeRole inp, Sleep (i * 1000)] @ backoffRounds inp (Suc i) k"
  by (simp add: backoffRounds_def upt_rec)

lemma roleAssumptionLoop_mismatch:
  assumes inp: "inp = assumeRoleInput roleArn [] name"
  shows "k \<le> n \<Longrightarrow> \<forall>j<k. roleMismatch cfg ccsRoleID (AssumeRole client (calls w + j) inp) \<Longrightarrow>
    roleAssumptionLoop cfg client roleArn name ccsRoleID n i cur w =
      roleAssumptionLoop cfg client roleArn name ccsRoleID (n - k) (i + k)
        (if k = 0 then cur else fst (AssumeRole client (calls w + (k - 1)) inp))
        (w\<lparr>calls := calls w + k, trace := trace w @ backoffRounds inp i k\<rparr>)"
proof (induction k arbitrary: n i cur w)
  case 0
  then show ?case by (simp add: backoffRounds_0)
next
  case (Suc k)
  then obtain m where n: "n = Suc m" and km: "k \<le> m" by (cases n) auto
  let ?r = "AssumeRole client (calls w) inp"
  let ?w1 = "w\<lparr>calls := Suc (calls w), trace := trace w @ [Sleep 500, CallAssumeRole inp]\<rparr>"
  from Suc.prems(2) have mm0: "roleMismatch cfg ccsRoleID ?r"
    by (metis add.right_neutral zero_less_Suc)
  then have ok: "snd ?r = None" by (simp add: roleMismatch_def)
  from mm0 obtain rid where rid: "assumedRoleId (fst ?r) = Some rid"
     and bad: "ccsRoleID \<noteq> []" "\<not> fst (matchSubstringV2 cfg ccsRoleID rid)"
    by (auto simp: roleMismatch_def split: option.splits)
  have sts: "GetSTSCredentialsV2 client roleArn [] name w = (?r, ?w1)"
    using GetSTSCredentialsV2_first_try[of client w roleArn "[]" name] ok inp by simp
  obtain out where r: "?r = (out, None)" using ok by (cases ?r) simp
  let ?w2 = "sleep (i * 1000) ?w1"
  have step: "roleAssumptionLoop cfg client roleArn name ccsRoleID n i cur w =
      roleAssumptionLoop cfg client roleArn name ccsRoleID m (Suc i) out ?w2"
    using sts r rid bad n by simp
  have rest: "\<forall>j<k. roleMismatch cfg ccsRoleID (AssumeRole client (calls ?w2 + j) inp)"
    using Suc.prems(2) by (auto simp: sleep_def dest: spec[where x="Suc j" for j])
  have "roleAssumptionLoop cfg client roleArn name ccsRoleID m (Suc i) out ?w2 =
      roleAssumptionLoop cfg client roleArn name ccsRoleID (m - k) (Suc i + k)
        (if k = 0 then out else fst (AssumeRole client (calls ?w2 + (k - 1)) inp))
        (?w2\<lparr>calls := calls ?w2 + k, trace := trace ?w2 @ backoffRounds inp (Suc i) k\<rparr>)"
    by (rule Suc.IH[OF km rest])
  with step r n show ?case
    by (cases k) (simp_all add: sleep_def backoffRounds_Suc)
qed

text \<open>
  C5: in \<open>HandleRoleAssumptionV2\<close> with a non-empty expected role identifier, let
  the first \<open>k \<le> 10\<close> assume-role answers carry an assumed-role-id that the pattern
  does not match, and (when \<open>k < 10\<close>) let the next answer match.  Then round
  \<open>j < k\<close> consists of the whole assume-role call (its 500 ms sleep and the call with
  the same input) followed by a sleep of \<open>j\<close> seconds, the call is repeated after each
  of the first nine mismatches, and after the tenth mismatch no further call is made: the
  function goes on to build the client with the credentials of the last answer.
\<close>

theorem HandleRoleAssumptionV2_backoff:
  assumes inp: "inp = assumeRoleInput (GetIAMArn cfg (AwsAccountID (Spec acct)) (AwsResourceTypeRole cfg) roleToAssume)
                   [] ''awsAccountOperator''"
    and k: "k \<le> 10"
    and mism: "\<forall>j<k. roleMismatch cfg ccsRoleID (AssumeRole client (calls w + j) inp)"
    and acc: "k < 10 \<longrightarrow> roleAccepted cfg ccsRoleID (AssumeRole client (calls w + k) inp)"
  shows "HandleRoleAssumptionV2 cfg builder acct client region roleToAssume ccsRoleID w =
     buildAssumedRoleClient cfg builder region
       (fst (AssumeRole client (calls w + (if k < 10 then k else 9)) inp))
       (w\<lparr>calls := calls w + (if k < 10 then Suc k else 10),
          trace := trace w @ backoffRounds inp 0 k @
                     (if k < 10 then [Sleep 500, CallAssumeRole inp] else [])\<rparr>)"
proof -
  let ?arn = "GetIAMArn cfg (AwsAccountID (Spec acct)) (AwsResourceTypeRole cfg) roleToAssume"
  let ?name = "''awsAccountOperator''"
  let ?wk = "w\<lparr>calls := calls w + k, trace := trace w @ backoffRounds inp 0 k\<rparr>"
  let ?cur = "if k = 0 then None else fst (AssumeRole client (calls w + (k - 1)) inp)"
  have rounds: "roleAssumptionLoop cfg client ?arn ?name ccsRoleID 10 0 None w =
      roleAssumptionLoop cfg client ?arn ?name ccsRoleID (10 - k) (0 + k) ?cur ?wk"
    using roleAssumptionLoop_mismatch[OF inp k mism] .
  show ?thesis
  proof (cases "k < 10")
    case False
    with k have k10: "k = 10" by simp
    with rounds have "roleAssumptionLoop cfg client ?arn ?name ccsRoleID 10 0 None w =
        (Inr (fst (AssumeRole client (calls w + 9) inp)), ?wk)"
      by simp
    with k10 show ?thesis
      by (simp add: HandleRoleAssumptionV2_def)
  next
    case True
    then obtain m where m: "10 - k = Suc m" by (cases "10 - k") auto
    let ?r = "AssumeRole client (calls w + k) inp"
    from acc True have a: "roleAccepted cfg ccsRoleID ?r" by simp
    then have ok: "snd ?r = None" by (simp add: roleAccepted_def)
    from a obtain rid where rid: "assumedRoleId (fst ?r) = Some rid"
      and good: "ccsRoleID = [] \<or> fst (matchSubstringV2 cfg ccsRoleID rid)"
      by (auto simp: roleAccepted_def split: option.splits)
    let ?w1 = "?wk\<lparr>calls := Suc (calls ?wk), trace := trace ?wk @ [Sleep 500, CallAssumeRole inp]\<rparr>"
    have sts: "GetSTSCredentialsV2 client ?arn [] ?name ?wk = (?r, ?w1)"
      using GetSTSCredentialsV2_first_try[of client ?wk ?arn "[]" ?name] ok inp by simp
    obtain out where r: "?r = (out, None)" using ok by (cases ?r) simp
    have "roleAssumptionLoop cfg client ?arn ?name ccsRoleID (Suc m) (0 + k) ?cur ?wk = (Inr out, ?w1)"
      using sts r rid good by auto
    with rounds m have "roleAssumptionLoop cfg client ?arn ?name ccsRoleID 10 0 None w = (Inr out, ?w1)"
      by simp
    with True r show ?thesis
      by (simp add: HandleRoleAssumptionV2_def)
  qed
qed

text \<open>No assume-role call is made after the loop.\<close>

lemma buildAssumedRoleClient_calls:
  "calls (snd (buildAssumedRoleClient cfg builder region creds w)) = calls w"
  by (auto simp: buildAssumedRoleClient_def Let_def split: option.splits prod.splits)

theorem HandleRoleAssumptionV2_backoff_witness:
  "snd (HandleRoleAssumptionV2 config0 builder0 account0 (staleClient 2) [] ''BYOCAdminAccess''
          ''AROANEW'' world0) =
     world0\<lparr>calls := 3,
      trace := [Sleep 500, CallAssumeRole byocInput, Sleep 0,
               Sleep 500, CallAssumeRole byocInput, Sleep 1000,
               Sleep 500, CallAssumeRole byocInput,
               CallGetClientV2 ''account'' assumedClientInput]\<rparr> \<and>
   snd (HandleRoleAssumptionV2 config0 builder0 account0 (staleClient 11) [] ''BYOCAdminAccess''
          ''AROANEW'' world0) =
     world0\<lparr>calls := 10,
      trace := backoffRounds byocInput 0 10 @ [CallGetClientV2 ''account'' assumedClientInput]\<rparr>"
proof -
  have inp: "byocInput =
      assumeRoleInput (GetIAMArn config0 (AwsAccountID (Spec account0)) (AwsResourceTypeRole config0)
        ''BYOCAdminAccess'') [] ''awsAccountOperator''"
    by (simp add: byocInput_def config0_def account0_def)
  have m2: "\<forall>j<2. roleMismatch config0 ''AROANEW'' (AssumeRole (staleClient 2) (calls world0 + j) byocInput)"
    by (simp add: roleMismatch_def staleClient_def assumedRoleId_def roleOutput_def
          matchSubstringV2_def config0_def world0_def)
  have a2: "(2::nat) < 10 \<longrightarrow>
      roleAccepted config0 ''AROANEW'' (AssumeRole (staleClient 2) (calls world0 + 2) byocInput)"
    by (simp add: roleAccepted_def staleClient_def assumedRoleId_def roleOutput_def
          matchSubstringV2_def config0_def world0_def)
  have m10: "\<forall>j<10. roleMismatch config0 ''AROANEW'' (AssumeRole (staleClient 11) (calls world0 + j) byocInput)"
    by (simp add: roleMismatch_def staleClient_def assumedRoleId_def roleOutput_def
          matchSubstringV2_def config0_def world0_def)
  have a10: "(10::nat) < 10 \<longrightarrow>
      roleAccepted config0 ''AROANEW'' (AssumeRole (staleClient 11) (calls world0 + 10) byocInput)"
    by simp
  have first: "snd (HandleRoleAssumptionV2 config0 builder0 account0 (staleClient 2) [] ''BYOCAdminAccess''
          ''AROANEW'' world0) =
     world0\<lparr>calls := 3,
      trace := [Sleep 500, CallAssumeRole byocInput, Sleep 0,
               Sleep 500, CallAssumeRole byocInput, Sleep 1000,
               Sleep 500, CallAssumeRole byocInput,
               CallGetClientV2 ''account'' assumedClientInput]\<rparr>"
    using HandleRoleAssumptionV2_backoff[OF inp _ m2 a2, of builder0 "[]"]
    by (simp add: buildAssumedRoleClient_def staleClient_def roleOutput_def world0_def
          config0_def builder0_def controllerNameV2_sts_def assumedClientInput_def
          backoffRounds_def upt_rec numeral_2_eq_2)
  have second: "snd (HandleRoleAssumptionV2 config0 builder0 account0 (staleClient 11) [] ''BYOCAdminAccess''
          ''AROANEW'' world0) =
     world0\<lparr>calls := 10,
      trace := backoffRounds byocInput 0 10 @ [CallGetClientV2 ''account'' assumedClientInput]\<rparr>"
    using HandleRoleAssumptionV2_backoff[OF inp _ m10 a10, of builder0 "[]"]
    by (simp add: buildAssumedRoleClient_def staleClient_def roleOutput_def world0_def
          config0_def builder0_def controllerNameV2_sts_def assumedClientInput_def)
  from first second show ?thesis by simp
qed

section \<open>Properties of the account reconciler\<close>

text \<open>The definitions to unfold when the reconciler runs on the concrete deployment.\<close>

lemmas fixture_defs = env0_def utils0_def api0_def kube0_def reconciler0_def config0_def
  world0_def account0_def newAccount_def creatingAccount_def failedAccount_def nullClient_def
  setupClientInput_def

lemmas predicate_defs = Contains_def IsPendingDeletion_def IsFailed_def IsBYOC_def
  IsInitializingRegions_def newBYOCAccountV2_def IsPendingVerification_def
  IsReadyUnclaimedAndHasClaimLink_def IsReady_def IsCreating_def IsUnclaimedAndHasNoState_def
  IsClaimed_def HasState_def HasAwsAccountID_def HasClaimLink_def
  AccountFailed_def AccountFailedV2_def AccountCreating_def AccountCreatingV2_def
  AccountReady_def AccountReadyV2_def AccountInitializingRegionsV2_def
  AccountPendingVerificationV2_def

lemmas outcome_defs = returned_def storedAfter_def statusAfter_def traceAfter_def

lemma onlyEvents_refl: "onlyEvents P w w"
  by (simp add: onlyEvents_def)

lemma onlyEvents_trans: "onlyEvents P w w' \<Longrightarrow> onlyEvents P w' w'' \<Longrightarrow> onlyEvents P w w''"
  by (auto simp: onlyEvents_def)

lemma onlyEvents_step: "P e \<Longrightarrow> onlyEvents P w (w\<lparr>trace := trace w @ [e]\<rparr>)"
  by (simp add: onlyEvents_def)

text \<open>
  C7, the claim as stated fails: a Failed account that is not pending deletion and does
  not carry the finalizer yet is written back with the finalizer added.
\<close>

theorem Reconcile_failed_account_counterexample:
  "IsFailed failedAccount \<and> \<not> IsPendingDeletion failedAccount \<and>
   storedAfter (Reconcile 1 (env0 False True False) reconciler0
                  (world0\<lparr>stored := Some failedAccount\<rparr>)) \<noteq> Some failedAccount \<and>
   traceAfter (Reconcile 1 (env0 False True False) reconciler0
                 (world0\<lparr>stored := Some failedAccount\<rparr>)) =
     [CallGetClientV2 ''account'' setupClientInput,
      KubeUpdate (withFinalizer api0 failedAccount)]"
  by (simp add: Reconcile_def reconcileFetched_def kubeGet_def addFinalizer_def kubeUpdate_def predicate_defs
        operatorClientInput_def fixture_defs outcome_defs controllerName_def withFinalizer_def emptyResult_def Let_def)

text \<open>
  C7, amended: for every account in the Failed state that is not pending deletion,
  reconciliation returns, calls the provider not at all and does not write the status;
  the spec and the status of the stored account stay as they were.  The stored account
  is unchanged altogether unless it is not in STS mode and lacks the finalizer, in which
  case the only change is that the finalizer has been added.
\<close>

theorem Reconcile_failed_account:
  assumes st: "stored w = Some a" and failed: "IsFailed a" and nd: "\<not> IsPendingDeletion a"
  shows "\<exists>ret w'. Reconcile fuel env r w = Some (ret, w') \<and>
           calls w' = calls w \<and> polls w' = polls w \<and> onlyEvents quietEvent w w' \<and>
           (stored w' = Some a \<or>
            (\<not> ManualSTSMode (Spec a) \<and>
             \<not> Contains (Finalizers (Meta a)) (AccountFinalizer (api env)) \<and>
             stored w' = Some (withFinalizer (api env) a)))"
proof -
  let ?a' = "withFinalizer (api env) a"
  have f': "IsFailed ?a'" "\<not> IsPendingDeletion ?a'"
    using failed nd by (simp_all add: withFinalizer_def IsFailed_def IsPendingDeletion_def)
  have same: "?a'\<lparr>Status := Status a\<rparr> = ?a'"
    by (simp add: withFinalizer_def)
  show ?thesis
    using st failed nd f' same
    by (auto simp: Reconcile_def reconcileFetched_def kubeGet_def addFinalizer_def kubeUpdate_def Let_def
          onlyEvents_def withFinalizer_def
          split: option.splits sum.splits prod.splits if_splits)
qed

theorem Reconcile_failed_account_witness:
  "\<exists>ret w'. Reconcile 1 (env0 False True False) reconciler0
                 (world0\<lparr>stored := Some failedAccount\<rparr>) = Some (ret, w') \<and>
      calls w' = 0 \<and> polls w' = 0 \<and>
      onlyEvents quietEvent (world0\<lparr>stored := Some failedAccount\<rparr>) w' \<and>
      stored w' = Some (withFinalizer api0 failedAccount)"
proof -
  have h1: "stored (world0\<lparr>stored := Some failedAccount\<rparr>) = Some failedAccount"
    by simp
  have h2: "IsFailed failedAccount"
    by (simp add: predicate_defs fixture_defs)
  have h3: "\<not> IsPendingDeletion failedAccount"
    by (simp add: predicate_defs fixture_defs)
  have changed: "withFinalizer api0 failedAccount \<noteq> failedAccount"
    by (simp add: withFinalizer_def fixture_defs)
  from Reconcile_failed_account[OF h1 h2 h3, of 1 "env0 False True False" reconciler0]
  obtain ret w' where
    run: "Reconcile 1 (env0 False True False) reconciler0
            (world0\<lparr>stored := Some failedAccount\<rparr>) = Some (ret, w')"
    and c: "calls w' = calls (world0\<lparr>stored := Some failedAccount\<rparr>)"
    and p: "polls w' = polls (world0\<lparr>stored := Some failedAccount\<rparr>)"
    and q: "onlyEvents quietEvent (world0\<lparr>stored := Some failedAccount\<rparr>) w'"
    and s: "stored w' = Some failedAccount \<or>
            stored w' = Some (withFinalizer (api (env0 False True False)) failedAccount)"
    by blast
  have "storedAfter (Reconcile 1 (env0 False True False) reconciler0
          (world0\<lparr>stored := Some failedAccount\<rparr>)) \<noteq> Some failedAccount"
    by (simp add: Reconcile_def reconcileFetched_def kubeGet_def addFinalizer_def kubeUpdate_def predicate_defs
          operatorClientInput_def fixture_defs outcome_defs controllerName_def withFinalizer_def
          emptyResult_def Let_def)
  with run have "stored w' \<noteq> Some failedAccount"
    by (simp add: storedAfter_def)
  with s have "stored w' = Some (withFinalizer api0 failedAccount)"
    by (simp add: env0_def)
  with run c p q show ?thesis
    by (simp add: world0_def)
qed

text \<open>
  \<open>setAccountFailedV2\<close> does not use its \<open>reason\<close>: two calls that differ in the
  reason only have the same outcome.
\<close>

lemma setAccountFailedV2_ignores_reason:
  "setAccountFailedV2 r account ctype reason message state w =
   setAccountFailedV2 r account ctype reason' message state w"
  by (simp add: setAccountFailedV2_def)

text \<open>
  C6, the code at an account of the pool in state Creating whose creation condition is
  older than the wait time of 25 minutes: the reconciliation returns the timeout error,
  but the status it writes has the message as its state and the text \<open>Failed\<close> as the
  message of the new condition; the reason \<open>CreationTimeout\<close> is nowhere in it.
\<close>

theorem Reconcile_creation_timeout_status:
  "returned (Reconcile 1 (env0 False True True) reconciler0
               (world0\<lparr>stored := Some creatingAccount\<rparr>)) =
     Some (emptyResult, Some (ErrMsg ''Creation pending for longer than 25 minutes'')) \<and>
   statusAfter (Reconcile 1 (env0 False True True) reconciler0
                  (world0\<lparr>stored := Some creatingAccount\<rparr>)) =
     Some \<lparr>State = ''Creation pending for longer than 25 minutes'',
           Claimed = False, Reused = False,
           Conditions = [\<lparr>condType = v1alpha1_AccountCreationFailed, condMessage = ''Failed''\<rparr>],
           SupportCaseID = []\<rparr>"
  by (simp add: Reconcile_def reconcileFetched_def kubeGet_def addFinalizer_def kubeUpdate_def kubeStatusUpdate_def
        statusUpdate_def reconcileNonCCS_def setAccountFailedV2_def SetAccountStatus_def
        creationTimeoutMessage_def decimal.simps createPendTime_def createPendTimeV2_def
        predicate_defs operatorClientInput_def fixture_defs outcome_defs controllerName_def
        emptyResult_def Let_def)

subsection \<open>No account is created on the way to a deleted account\<close>

lemma onlyEvents_sleep: "P (Sleep ms) \<Longrightarrow> onlyEvents P w (sleep ms w)"
  by (simp add: onlyEvents_def sleep_def)

lemma assumeRoleLoop_events:
  "onlyEvents notCreateAccount w (snd (assumeRoleLoop client inp n cur w))"
proof (induction n arbitrary: cur w)
  case 0
  show ?case by (simp add: onlyEvents_refl)
next
  case (Suc n)
  let ?w1 = "snd (callAssumeRole client inp (sleep 500 w))"
  have one: "onlyEvents notCreateAccount w ?w1"
    by (simp add: onlyEvents_def callAssumeRole_def sleep_def notCreateAccount_def)
  have more: "onlyEvents notCreateAccount w
                (snd (assumeRoleLoop client inp n (fst (callAssumeRole client inp (sleep 500 w))) ?w1))"
    by (rule onlyEvents_trans[OF one Suc.IH])
  show ?case
    using one more by (simp add: split_beta)
qed

lemma GetSTSCredentialsV2_events:
  "onlyEvents notCreateAccount w (snd (GetSTSCredentialsV2 client roleArn externalID name w))"
  using assumeRoleLoop_events[of w client "assumeRoleInput roleArn externalID name" 100
          "(Some emptyAssumeRoleOutput, None)"]
  by (simp add: GetSTSCredentialsV2_def split_beta)

lemma roleAssumptionLoop_events:
  "onlyEvents notCreateAccount w
     (snd (roleAssumptionLoop cfg client roleArn name ccsRoleID n i creds w))"
proof (induction n arbitrary: i creds w)
  case 0
  show ?case by (simp add: onlyEvents_refl)
next
  case (Suc n)
  let ?g = "GetSTSCredentialsV2 client roleArn [] name w"
  have one: "onlyEvents notCreateAccount w (snd ?g)"
    by (rule GetSTSCredentialsV2_events)
  have two: "onlyEvents notCreateAccount w (sleep (i * 1000) (snd ?g))"
    by (rule onlyEvents_trans[OF one]) (simp add: onlyEvents_sleep notCreateAccount_def)
  have more: "onlyEvents notCreateAccount w
      (snd (roleAssumptionLoop cfg client roleArn name ccsRoleID n (Suc i) (fst (fst ?g))
              (sleep (i * 1000) (snd ?g))))"
    by (rule onlyEvents_trans[OF two Suc.IH])
  show ?case
    using one more by (simp add: split_beta split: option.splits)
qed

lemma buildAssumedRoleClient_events:
  "onlyEvents notCreateAccount w (snd (buildAssumedRoleClient cfg builder region creds w))"
  by (auto simp: buildAssumedRoleClient_def Let_def onlyEvents_def notCreateAccount_def
        split: option.splits prod.splits)

lemma HandleRoleAssumptionV2_events:
  "onlyEvents notCreateAccount w
     (snd (HandleRoleAssumptionV2 cfg builder acct client region roleToAssume ccsRoleID w))"
proof -
  let ?l = "roleAssumptionLoop cfg client
              (GetIAMArn cfg (AwsAccountID (Spec acct)) (AwsResourceTypeRole cfg) roleToAssume)
              ''awsAccountOperator'' ccsRoleID 10 0 None w"
  have one: "onlyEvents notCreateAccount w (snd ?l)"
    by (rule roleAssumptionLoop_events)
  show ?thesis
  proof (cases "fst ?l")
    case (Inl e)
    with one show ?thesis
      by (simp add: HandleRoleAssumptionV2_def split_beta)
  next
    case (Inr creds)
    have "onlyEvents notCreateAccount w
            (snd (buildAssumedRoleClient cfg builder region creds (snd ?l)))"
      by (rule onlyEvents_trans[OF one buildAssumedRoleClient_events])
    with Inr show ?thesis
      by (simp add: HandleRoleAssumptionV2_def split_beta)
  qed
qed

lemma kubeUpdate_events: "onlyEvents notCreateAccount w (snd (kubeUpdate k a w))"
  by (auto simp: kubeUpdate_def Let_def onlyEvents_def notCreateAccount_def split: option.splits)

lemma kubeStatusUpdate_events: "onlyEvents notCreateAccount w (snd (kubeStatusUpdate k a w))"
  by (auto simp: kubeStatusUpdate_def Let_def onlyEvents_def notCreateAccount_def
        split: option.splits)

lemma removeFinalizer_events:
  "onlyEvents notCreateAccount w (snd (snd (removeFinalizer r a f w)))"
  using kubeUpdate_events by (simp add: removeFinalizer_def Let_def split_beta)

lemma handleAWSClientErrorV2_events:
  "onlyEvents notCreateAccount w (snd (snd (handleAWSClientErrorV2 r a e w)))"
  using kubeStatusUpdate_events
  by (simp add: handleAWSClientErrorV2_def setAccountFailedV2_def statusUpdate_def Let_def
        split_beta split: option.splits)

lemma reconcileDeletion_events:
  "onlyEvents notCreateAccount w (snd (reconcileDeletion env r a cl w))"
proof (cases "ManualSTSMode (Spec a)")
  case True
  then show ?thesis
    using removeFinalizer_events by (simp add: reconcileDeletion_def split_beta)
next
  case False
  show ?thesis
  proof (cases cl)
    case None
    with False show ?thesis
      by (simp add: reconcileDeletion_def onlyEvents_sleep notCreateAccount_def)
  next
    case (Some operatorClient)
    let ?role = "if IsBYOC a then GetAssumeRole (api env) a else AccountOperatorIAMRole (api env)"
    let ?h = "HandleRoleAssumptionV2 (config env) (awsClientBuilder r) a operatorClient [] ?role [] w"
    have one: "onlyEvents notCreateAccount w (snd ?h)"
      by (rule HandleRoleAssumptionV2_events)
    have err: "onlyEvents notCreateAccount w (snd (snd (handleAWSClientErrorV2 r a e (snd ?h))))" for e
      by (rule onlyEvents_trans[OF one handleAWSClientErrorV2_events])
    have rem: "onlyEvents notCreateAccount w
                 (snd (snd (removeFinalizer r a (AccountFinalizer (api env)) (snd ?h))))"
      by (rule onlyEvents_trans[OF one removeFinalizer_events])
    show ?thesis
      using False Some one err rem
      by (cases "fst ?h")
         (auto simp: reconcileDeletion_def Let_def split_beta split: option.splits)
  qed
qed

subsection \<open>The account-creation budget\<close>

text \<open>
  A new account of the pool when the budget is used up outside FedRAMP: past the
  finalizer, a reconciliation either handles the deletion or asks to be run again in five
  minutes, and leaves the world as it found it in the second case.
\<close>

lemma reconcileFetched_budget_exhausted:
  assumes spec: "Spec acct = Spec a" and status: "Status acct = Status a"
    and new: "IsUnclaimedAndHasNoState a" "\<not> IsBYOC a" "\<not> HasAwsAccountID a"
    and budget: "\<not> AccountsCanBeCreated (utils env)"
    and fed: "\<not> IsFedramp (config env)"
  shows "\<exists>ret w'. reconcileFetched fuel env r acct cl configMap opt regions w2 = Some (ret, w') \<and>
           onlyEvents notCreateAccount w2 w' \<and>
           (\<not> IsPendingDeletion acct \<longrightarrow>
              ret = (\<lparr>Requeue = True, RequeueAfter = 5 * Minute\<rparr>, None) \<and> w' = w2)"
proof (cases "IsPendingDeletion acct")
  case True
  obtain ret w' where d: "reconcileDeletion env r acct cl w2 = (ret, w')"
    by (cases "reconcileDeletion env r acct cl w2")
  with reconcileDeletion_events[of w2 env r acct cl] have "onlyEvents notCreateAccount w2 w'"
    by simp
  with True d show ?thesis
    by (simp add: reconcileFetched_def)
next
  case False
  have "reconcileNonCCS fuel env r acct cl w2 =
          Some (Inl (\<lparr>Requeue = True, RequeueAfter = 5 * Minute\<rparr>, None), w2)"
    using spec status new budget fed
    by (simp add: reconcileNonCCS_def predicate_defs)
  moreover have "\<not> IsFailed acct" "\<not> IsInitializingRegions acct" "\<not> newBYOCAccountV2 acct"
    using spec status new by (simp_all add: predicate_defs)
  ultimately show ?thesis
    using False by (simp add: reconcileFetched_def onlyEvents_refl)
qed

text \<open>
  C8, the claim as stated fails: in a FedRAMP deployment the budget is not consulted, and
  a new account of the pool makes the reconciler call \<open>CreateAccount\<close> although no
  account can be created; the reconciliation is not requeued for later.
\<close>

theorem Reconcile_budget_counterexample:
  "\<not> AccountsCanBeCreated (utils (env0 True False False)) \<and>
   IsUnclaimedAndHasNoState newAccount \<and> \<not> IsBYOC newAccount \<and> \<not> HasAwsAccountID newAccount \<and>
   CallCreateAccount ''osd-creds-mgmt-aaabbb'' ''osd-creds-mgmt+osd-creds-mgmt-aaabbb@example.com''
     \<in> set (traceAfter (Reconcile 1 (env0 True False False) reconciler0
                           (world0\<lparr>stored := Some newAccount\<rparr>))) \<and>
   returned (Reconcile 1 (env0 True False False) reconciler0
               (world0\<lparr>stored := Some newAccount\<rparr>)) =
     Some (emptyResult, Some ErrAwsFailedCreateAccount)"
  by (simp add: Reconcile_def reconcileFetched_def kubeGet_def addFinalizer_def kubeUpdate_def
        kubeStatusUpdate_def statusUpdate_def reconcileNonCCS_def nonCCSAssignAccountIDV2_def
        BuildAccountV2_def CreateAccountV2_def SetAccountStatus_def emptyDescribeOutput_def
        predicate_defs operatorClientInput_def fixture_defs outcome_defs controllerName_def
        emptyResult_def Let_def)

text \<open>
  C8, amended: for every unclaimed non-BYOC account with no state and no AWS account ID,
  when the account-creation budget does not allow a new account and the deployment is not
  FedRAMP, a reconciliation returns without a call of \<open>CreateAccount\<close>.  If moreover
  it gets as far as the budget (the account is read, the config map and the client of the
  operator are obtained, the finalizer is there or is added, and the account is not
  pending deletion), it returns a requeue after five minutes with a nil error, without
  any call of the provider and without a write of the status.
\<close>

theorem Reconcile_budget_exhausted:
  assumes st: "stored w = Some a"
    and new: "IsUnclaimedAndHasNoState a" "\<not> IsBYOC a" "\<not> HasAwsAccountID a"
    and budget: "\<not> AccountsCanBeCreated (utils env)"
    and fed: "\<not> IsFedramp (config env)"
  shows "\<exists>ret w'. Reconcile fuel env r w = Some (ret, w') \<and>
           onlyEvents notCreateAccount w w' \<and>
           (GetErr (Client r) = None \<and>
            (\<exists>configMap. GetOperatorConfigMap (utils env) = Inr configMap) \<and>
            snd (GetClientV2 (awsClientBuilder r) controllerName
                   (operatorClientInput env (GetDefaultRegion (config env)))) = None \<and>
            \<not> IsPendingDeletion a \<and>
            (ManualSTSMode (Spec a) \<or>
             Contains (Finalizers (Meta a)) (AccountFinalizer (api env)) \<or>
             UpdateErr (Client r) (withFinalizer (api env) a) = None)
            \<longrightarrow> ret = (\<lparr>Requeue = True, RequeueAfter = 5 * Minute\<rparr>, None) \<and>
                onlyEvents quietEvent w w')"
proof (cases "GetErr (Client r)")
  case (Some e)
  with st show ?thesis
    by (simp add: Reconcile_def kubeGet_def onlyEvents_refl)
next
  case None
  then have get: "kubeGet (Client r) w = Inr a"
    using st by (simp add: kubeGet_def)
  show ?thesis
  proof (cases "GetOperatorConfigMap (utils env)")
    case (Inl e)
    with get show ?thesis
      by (simp add: Reconcile_def onlyEvents_refl)
  next
    case (Inr configMap)
    let ?inp = "operatorClientInput env (GetDefaultRegion (config env))"
    let ?w1 = "w\<lparr>trace := trace w @ [CallGetClientV2 controllerName ?inp]\<rparr>"
    have e1: "onlyEvents notCreateAccount w ?w1"
      by (simp add: onlyEvents_def notCreateAccount_def)
    have q1: "onlyEvents quietEvent w ?w1"
      by (simp add: onlyEvents_def)
    obtain cl cerr where build: "GetClientV2 (awsClientBuilder r) controllerName ?inp = (cl, cerr)"
      by (cases "GetClientV2 (awsClientBuilder r) controllerName ?inp")
    show ?thesis
    proof (cases cerr)
      case (Some e)
      with get Inr build e1 show ?thesis
        by (simp add: Reconcile_def Let_def)
    next
      case None
      note noerr = None
      let ?opt = "case GetFeatureFlagValue (utils env) configMap ''feature.opt_in_regions'' of
                    (v, None) \<Rightarrow> v | (v, Some err) \<Rightarrow> False"
      let ?regions = "case configMap ''opt-in-regions'' of Some v \<Rightarrow> v | None \<Rightarrow> []"
      have run: "Reconcile fuel env r w =
          (case (if \<not> ManualSTSMode (Spec a) then addFinalizer env r a ?w1 else (None, a, ?w1)) of
             (Some err, _, w2) \<Rightarrow> Some ((emptyResult, Some err), w2)
           | (None, acct, w2) \<Rightarrow> reconcileFetched fuel env r acct cl configMap ?opt ?regions w2)"
        using get Inr build noerr by (simp add: Reconcile_def Let_def)
      show ?thesis
      proof (cases "ManualSTSMode (Spec a) \<or> Contains (Finalizers (Meta a)) (AccountFinalizer (api env))")
        case True
        then have run': "Reconcile fuel env r w =
            reconcileFetched fuel env r a cl configMap ?opt ?regions ?w1"
          using run by (auto simp: addFinalizer_def)
        from reconcileFetched_budget_exhausted[OF refl refl new budget fed,
               of fuel r cl configMap ?opt ?regions ?w1]
        obtain ret w' where
          f: "reconcileFetched fuel env r a cl configMap ?opt ?regions ?w1 = Some (ret, w')"
          and ev: "onlyEvents notCreateAccount ?w1 w'"
          and rq: "\<not> IsPendingDeletion a \<longrightarrow>
                     ret = (\<lparr>Requeue = True, RequeueAfter = 5 * Minute\<rparr>, None) \<and> w' = ?w1"
          by blast
        from e1 ev have "onlyEvents notCreateAccount w w'"
          by (rule onlyEvents_trans)
        with run' f rq q1 show ?thesis
          by auto
      next
        case False
        let ?a' = "withFinalizer (api env) a"
        let ?w2 = "snd (kubeUpdate (Client r) ?a' ?w1)"
        have add: "addFinalizer env r a ?w1 = (fst (kubeUpdate (Client r) ?a' ?w1), ?a', ?w2)"
          using False by (simp add: addFinalizer_def withFinalizer_def Let_def split_beta)
        have e2: "onlyEvents notCreateAccount w ?w2"
          by (rule onlyEvents_trans[OF e1 kubeUpdate_events])
        have q2: "onlyEvents quietEvent w ?w2"
          by (auto simp: kubeUpdate_def Let_def onlyEvents_def split: option.splits)
        show ?thesis
        proof (cases "fst (kubeUpdate (Client r) ?a' ?w1)")
          case (Some e)
          then have upd: "UpdateErr (Client r) ?a' \<noteq> None"
            using st by (auto simp: kubeUpdate_def Let_def split: option.splits)
          from Some run add False e2 have "Reconcile fuel env r w = Some ((emptyResult, Some e), ?w2)"
            by simp
          with e2 upd False show ?thesis
            by simp
        next
          case None
          then have run': "Reconcile fuel env r w =
              reconcileFetched fuel env r ?a' cl configMap ?opt ?regions ?w2"
            using run add False by simp
          have sp: "Spec ?a' = Spec a" and stt: "Status ?a' = Status a"
            by (simp_all add: withFinalizer_def)
          have pd: "IsPendingDeletion ?a' = IsPendingDeletion a"
            by (simp add: withFinalizer_def IsPendingDeletion_def)
          from reconcileFetched_budget_exhausted[OF sp stt new budget fed,
                 of fuel r cl configMap ?opt ?regions ?w2]
          obtain ret w' where
            f: "reconcileFetched fuel env r ?a' cl configMap ?opt ?regions ?w2 = Some (ret, w')"
            and ev: "onlyEvents notCreateAccount ?w2 w'"
            and rq: "\<not> IsPendingDeletion ?a' \<longrightarrow>
                       ret = (\<lparr>Requeue = True, RequeueAfter = 5 * Minute\<rparr>, None) \<and> w' = ?w2"
            by blast
          from e2 ev have "onlyEvents notCreateAccount w w'"
            by (rule onlyEvents_trans)
          with run' f rq q2 pd show ?thesis
            by auto
        qed
      qed
    qed
  qed
qed

theorem Reconcile_budget_exhausted_witness:
  "\<exists>w'. Reconcile 1 (env0 False False False) reconciler0 (world0\<lparr>stored := Some newAccount\<rparr>) =
           Some ((\<lparr>Requeue = True, RequeueAfter = 300000\<rparr>, None), w') \<and>
        onlyEvents notCreateAccount (world0\<lparr>stored := Some newAccount\<rparr>) w' \<and>
        onlyEvents quietEvent (world0\<lparr>stored := Some newAccount\<rparr>) w'"
proof -
  let ?env = "env0 False False False"
  let ?w = "world0\<lparr>stored := Some newAccount\<rparr>"
  have st: "stored ?w = Some newAccount"
    by simp
  have new: "IsUnclaimedAndHasNoState newAccount" "\<not> IsBYOC newAccount"
      "\<not> HasAwsAccountID newAccount"
    by (simp_all add: predicate_defs fixture_defs)
  have budget: "\<not> AccountsCanBeCreated (utils ?env)"
    by (simp add: fixture_defs)
  have fed: "\<not> IsFedramp (config ?env)"
    by (simp add: fixture_defs)
  have reach: "GetErr (Client reconciler0) = None \<and>
      (\<exists>configMap. GetOperatorConfigMap (utils ?env) = Inr configMap) \<and>
      snd (GetClientV2 (awsClientBuilder reconciler0) controllerName
             (operatorClientInput ?env (GetDefaultRegion (config ?env)))) = None \<and>
      \<not> IsPendingDeletion newAccount \<and>
      (ManualSTSMode (Spec newAccount) \<or>
       Contains (Finalizers (Meta newAccount)) (AccountFinalizer (api ?env)) \<or>
       UpdateErr (Client reconciler0) (withFinalizer (api ?env) newAccount) = None)"
    by (simp add: predicate_defs fixture_defs)
  from Reconcile_budget_exhausted[OF st new budget fed, of 1 reconciler0] reach
  obtain ret w' where
    "Reconcile 1 ?env reconciler0 ?w = Some (ret, w')"
    "onlyEvents notCreateAccount ?w w'"
    "ret = (\<lparr>Requeue = True, RequeueAfter = 5 * Minute\<rparr>, None)"
    "onlyEvents quietEvent ?w w'"
    by blast
  then show ?thesis
    by (auto simp: Minute_def)
qed

section \<open>Properties of the pool matcher\<close>

lemmas pool_defs = claimFromPool_def getUnclaimedAccount_def candidate_def targetPool_def
  effectivePool_def accountRank_def matchesLegalEntity_def bindAccount_def bindClaim_def
  boundAccountName_def poolAccount_def poolClaim_def noEntity_def legalEntity1_def
  legalEntity2_def defaultAccountPoolName_def sqAccountPoolName_def bothAccounts_def

text \<open>The expectations of the test suite hold in the model.\<close>

lemma test_should_claim_the_legalEntity2_account:
  "boundAccountName (claimFromPool defaultAccountPoolName
       (poolClaim ''service-quota-accountclaim'' [] legalEntity2)
       [poolAccount ''default-account'' [] legalEntity1 True,
        poolAccount ''account-two'' [] legalEntity2 True]) = Some ''account-two''"
  by (simp add: pool_defs)

lemma test_should_claim_the_reused_account:
  "boundAccountName (claimFromPool defaultAccountPoolName
       (poolClaim ''default-accountclaim'' [] legalEntity1)
       [poolAccount ''a-not-me'' [] legalEntity1 False,
        poolAccount ''default-account'' [] legalEntity1 True]) = Some ''default-account''"
  by (simp add: pool_defs)

lemma test_should_not_claim_the_default_account:
  "claimFromPool defaultAccountPoolName
       (poolClaim ''service-quota-accountclaim'' sqAccountPoolName noEntity)
       [poolAccount ''default-account'' [] noEntity False] = None"
  by (simp add: pool_defs)

lemma test_should_claim_the_non_default_account:
  "boundAccountName (claimFromPool defaultAccountPoolName
       (poolClaim ''service-quota-accountclaim'' sqAccountPoolName noEntity) bothAccounts) =
     Some ''service-quota-account''"
  by (simp add: pool_defs)

lemma test_explicit_default_claim_should_claim_the_default_account:
  "boundAccountName (claimFromPool defaultAccountPoolName
       (poolClaim ''default-accountclaim'' defaultAccountPoolName noEntity) bothAccounts) =
     Some ''default-account''"
  by (simp add: pool_defs)

lemma test_blank_claim_should_claim_the_default_account:
  "boundAccountName (claimFromPool defaultAccountPoolName
       (poolClaim ''default-accountclaim'' [] noEntity) bothAccounts) =
     Some ''default-account''"
  by (simp add: pool_defs)

subsection \<open>The pass over the candidates\<close>

lemma selectAccount_Some: "\<exists>a. selectAccount claim (Some b) as = Some a"
  by (induction as arbitrary: b) auto

lemma selectAccount_member:
  "selectAccount claim best as = Some a \<Longrightarrow> best = Some a \<or> a \<in> set as"
proof (induction as arbitrary: best)
  case Nil
  then show ?case by simp
next
  case (Cons c as)
  then show ?case
    by (cases best) (fastforce split: if_splits)+
qed

lemma selectAccount_rank:
  "selectAccount claim best as = Some a \<Longrightarrow>
   (\<forall>b. best = Some b \<longrightarrow> accountRank claim b \<le> accountRank claim a) \<and>
   (\<forall>b\<in>set as. accountRank claim b \<le> accountRank claim a)"
proof (induction as arbitrary: best)
  case Nil
  then show ?case by simp
next
  case (Cons c as)
  show ?case
  proof (cases best)
    case None
    with Cons.prems have "selectAccount claim (Some c) as = Some a" by simp
    from Cons.IH[OF this] None show ?thesis by simp
  next
    case (Some b)
    show ?thesis
    proof (cases "accountRank claim b < accountRank claim c")
      case True
      with Cons.prems Some have "selectAccount claim (Some c) as = Some a" by simp
      from Cons.IH[OF this] True Some show ?thesis by auto
    next
      case False
      with Cons.prems Some have "selectAccount claim (Some b) as = Some a" by simp
      from Cons.IH[OF this] False Some show ?thesis by auto
    qed
  qed
qed

lemma getUnclaimedAccount_None:
  "getUnclaimedAccount d claim accounts = None \<longleftrightarrow>
   filter (candidate d claim) accounts = []"
proof (cases "filter (candidate d claim) accounts")
  case Nil
  then show ?thesis by (simp add: getUnclaimedAccount_def)
next
  case (Cons c cs)
  then show ?thesis
    using selectAccount_Some[of claim c cs] by (auto simp: getUnclaimedAccount_def)
qed

lemma getUnclaimedAccount_candidate:
  assumes "getUnclaimedAccount d claim accounts = Some a"
  shows "a \<in> set accounts \<and> candidate d claim a"
  using selectAccount_member[of claim None "filter (candidate d claim) accounts" a] assms
  by (auto simp: getUnclaimedAccount_def)

lemma getUnclaimedAccount_rank:
  assumes "getUnclaimedAccount d claim accounts = Some a"
    and "b \<in> set accounts" and "candidate d claim b"
  shows "accountRank claim b \<le> accountRank claim a"
  using selectAccount_rank[of claim None "filter (candidate d claim) accounts" a] assms
  by (auto simp: getUnclaimedAccount_def)

text \<open>
  C4: the matcher returns no account exactly when no account is eligible.  The account
  it returns is an eligible account of the listing; it is reused and of the legal entity of
  the claim whenever some eligible account is, and it is reused whenever some eligible
  account is reused.
\<close>

theorem getUnclaimedAccount_tie_break:
  "(getUnclaimedAccount d claim accounts = None \<longleftrightarrow>
      (\<forall>b\<in>set accounts. \<not> candidate d claim b)) \<and>
   (\<forall>a. getUnclaimedAccount d claim accounts = Some a \<longrightarrow>
      a \<in> set accounts \<and> candidate d claim a \<and>
      ((\<exists>b\<in>set accounts. candidate d claim b \<and> Reused (Status b) \<and> matchesLegalEntity claim b)
         \<longrightarrow> Reused (Status a) \<and> matchesLegalEntity claim a) \<and>
      ((\<exists>b\<in>set accounts. candidate d claim b \<and> Reused (Status b)) \<longrightarrow> Reused (Status a)))"
proof (intro conjI allI impI)
  show "getUnclaimedAccount d claim accounts = None \<longleftrightarrow>
          (\<forall>b\<in>set accounts. \<not> candidate d claim b)"
    by (simp add: getUnclaimedAccount_None filter_empty_conv)
next
  fix a
  assume sel: "getUnclaimedAccount d claim accounts = Some a"
  from getUnclaimedAccount_candidate[OF sel]
  show "a \<in> set accounts" and "candidate d claim a"
    by simp_all
  {
    assume "\<exists>b\<in>set accounts. candidate d claim b \<and> Reused (Status b) \<and> matchesLegalEntity claim b"
    then obtain b where b: "b \<in> set accounts" "candidate d claim b"
        and top: "accountRank claim b = 2"
      by (auto simp: accountRank_def)
    from getUnclaimedAccount_rank[OF sel b] top have "2 \<le> accountRank claim a"
      by simp
    then show "Reused (Status a)" and "matchesLegalEntity claim a"
      by (simp_all add: accountRank_def split: if_splits)
  }
  {
    assume "\<exists>b\<in>set accounts. candidate d claim b \<and> Reused (Status b)"
    then obtain b where b: "b \<in> set accounts" "candidate d claim b"
        and one: "1 \<le> accountRank claim b"
      by (auto simp: accountRank_def)
    from getUnclaimedAccount_rank[OF sel b] one have "1 \<le> accountRank claim a"
      by simp
    then show "Reused (Status a)"
      by (simp add: accountRank_def split: if_splits)
  }
qed

theorem getUnclaimedAccount_tie_break_witness:
  "getUnclaimedAccount defaultAccountPoolName (poolClaim ''service-quota-accountclaim'' [] legalEntity2)
     [poolAccount ''default-account'' [] legalEntity1 True,
      poolAccount ''account-two'' [] legalEntity2 True] =
     Some (poolAccount ''account-two'' [] legalEntity2 True) \<and>
   Reused (Status (poolAccount ''account-two'' [] legalEntity2 True)) \<and>
   matchesLegalEntity (poolClaim ''service-quota-accountclaim'' [] legalEntity2)
     (poolAccount ''account-two'' [] legalEntity2 True)"
proof -
  let ?claim = "poolClaim ''service-quota-accountclaim'' [] legalEntity2"
  let ?accounts = "[poolAccount ''default-account'' [] legalEntity1 True,
                    poolAccount ''account-two'' [] legalEntity2 True]"
  let ?two = "poolAccount ''account-two'' [] legalEntity2 True"
  have sel: "getUnclaimedAccount defaultAccountPoolName ?claim ?accounts = Some ?two"
    by (simp add: pool_defs)
  have ex: "\<exists>b\<in>set ?accounts. candidate defaultAccountPoolName ?claim b \<and> Reused (Status b) \<and>
              matchesLegalEntity ?claim b"
    by (simp add: pool_defs)
  from getUnclaimedAccount_tie_break[of defaultAccountPoolName ?claim ?accounts] sel ex
  have "Reused (Status ?two) \<and> matchesLegalEntity ?claim ?two"
    by blast
  with sel show ?thesis
    by simp
qed

text \<open>
  C3, the claim as stated fails: with the default pool configured under the name
  \<open>my-default-accountpool\<close>, a claim with an empty pool name binds the account whose
  pool name is \<open>my-default-accountpool\<close>, as the test suite expects.
\<close>

theorem claimFromPool_default_claim_counterexample:
  "claimAccountPool (claimSpec (poolClaim ''default-accountclaim'' [] noEntity)) = [] \<and>
   AccountPool (Spec (poolAccount ''default-account'' defaultAccountPoolName noEntity False)) \<noteq> [] \<and>
   claimFromPool defaultAccountPoolName (poolClaim ''default-accountclaim'' [] noEntity)
       bothAccounts =
     Some (bindAccount (poolClaim ''default-accountclaim'' [] noEntity)
             (poolAccount ''default-account'' defaultAccountPoolName noEntity False),
           bindClaim (poolClaim ''default-accountclaim'' [] noEntity)
             (poolAccount ''default-account'' defaultAccountPoolName noEntity False))"
  by (simp add: claimFromPool_def getUnclaimedAccount_def candidate_def targetPool_def
        effectivePool_def accountRank_def matchesLegalEntity_def poolAccount_def poolClaim_def
        noEntity_def defaultAccountPoolName_def sqAccountPoolName_def bothAccounts_def)

text \<open>
  C3, amended: the matcher binds a claim only to a Ready, unclaimed account of the
  listing whose pool is the pool of the claim, an empty pool name standing on either side
  for the configured default pool.  So a claim that requests a pool \<open>P\<close> other than the
  default pool never binds to an account whose pool name is empty or different from
  \<open>P\<close>, and a claim with an empty pool name binds only to an account whose pool name
  is empty or the name of the default pool.
\<close>

theorem claimFromPool_pool_isolation:
  assumes "claimFromPool d claim accounts = Some (a', claim')"
  shows "\<exists>a\<in>set accounts. a' = bindAccount claim a \<and> claim' = bindClaim claim a \<and>
           State (Status a) = ''Ready'' \<and> \<not> Claimed (Status a) \<and>
           effectivePool d (AccountPool (Spec a)) =
             effectivePool d (claimAccountPool (claimSpec claim)) \<and>
           (claimAccountPool (claimSpec claim) \<noteq> [] \<and> claimAccountPool (claimSpec claim) \<noteq> d
              \<longrightarrow> AccountPool (Spec a) = claimAccountPool (claimSpec claim)) \<and>
           (claimAccountPool (claimSpec claim) = []
              \<longrightarrow> AccountPool (Spec a) = [] \<or> AccountPool (Spec a) = d)"
proof -
  from assms obtain a where sel: "getUnclaimedAccount d claim accounts = Some a"
      and a': "a' = bindAccount claim a" and c': "claim' = bindClaim claim a"
    by (auto simp: claimFromPool_def split: option.splits)
  from getUnclaimedAccount_candidate[OF sel]
  have mem: "a \<in> set accounts" and cand: "candidate d claim a"
    by simp_all
  from cand have "State (Status a) = ''Ready''" "\<not> Claimed (Status a)"
      "effectivePool d (AccountPool (Spec a)) = effectivePool d (claimAccountPool (claimSpec claim))"
    by (simp_all add: candidate_def targetPool_def)
  with mem a' c' show ?thesis
    by (auto simp: effectivePool_def split: if_splits)
qed

theorem claimFromPool_pool_isolation_witness:
  "\<exists>a\<in>set bothAccounts.
      claimFromPool defaultAccountPoolName
        (poolClaim ''service-quota-accountclaim'' sqAccountPoolName noEntity) bothAccounts =
        Some (bindAccount (poolClaim ''service-quota-accountclaim'' sqAccountPoolName noEntity) a,
              bindClaim (poolClaim ''service-quota-accountclaim'' sqAccountPoolName noEntity) a) \<and>
      AccountPool (Spec a) = sqAccountPoolName"
proof -
  let ?claim = "poolClaim ''service-quota-accountclaim'' sqAccountPoolName noEntity"
  let ?sq = "poolAccount ''service-quota-account'' sqAccountPoolName noEntity False"
  have run: "claimFromPool defaultAccountPoolName ?claim bothAccounts =
               Some (bindAccount ?claim ?sq, bindClaim ?claim ?sq)"
    by (simp add: claimFromPool_def getUnclaimedAccount_def candidate_def targetPool_def
          effectivePool_def accountRank_def matchesLegalEntity_def poolAccount_def poolClaim_def
          noEntity_def defaultAccountPoolName_def sqAccountPoolName_def bothAccounts_def)
  have named: "claimAccountPool (claimSpec ?claim) \<noteq> [] \<and>
               claimAccountPool (claimSpec ?claim) \<noteq> defaultAccountPoolName"
    by (simp add: poolClaim_def sqAccountPoolName_def defaultAccountPoolName_def)
  have pool: "claimAccountPool (claimSpec ?claim) = sqAccountPoolName"
    by (simp add: poolClaim_def)
  from claimFromPool_pool_isolation[OF run] named pool
  obtain a where "a \<in> set bothAccounts"
      "bindAccount ?claim ?sq = bindAccount ?claim a" "bindClaim ?claim ?sq = bindClaim ?claim a"
      "AccountPool (Spec a) = sqAccountPoolName"
    by auto
  with run show ?thesis
    by auto
qed

section \<open>Properties of the deletion of a claim\<close>

lemmas deletion_defs = finalizeAccountClaim_def getAccount_def updateAccount_def
  updateClaim_def replaceAccount_def touchAccount_def nextVersion_def resetAccount_def
  dropFinalizer_def Remove_def teardownFailures_def categories_def accountClaimFinalizer_def
  cleanAttempt_def failingAttempt_def deletedClaim_def claimedAccount_def deletionStore_def
  released_def deletedClaimOf_def

text \<open>The expectations of the test suite hold in the model.\<close>

lemma test_should_delete_AccountClaim:
  "fst (finalizeAccountClaim (cleanAttempt False) deletionStore) = None \<and>
   released (snd (finalizeAccountClaim (cleanAttempt False) deletionStore))
     ''osd-creds-mgmt-aaabbb''"
  by (simp add: deletion_defs)

lemma test_should_retry_on_a_conflict_error:
  "fst (finalizeAccountClaim (cleanAttempt True) deletionStore) =
     Some (ErrMsg ''account CR modified during reset: Conflict'') \<and>
   storeClaim (snd (finalizeAccountClaim (cleanAttempt True) deletionStore)) = Some deletedClaim"
  by (simp add: deletion_defs)

lemma test_should_handle_aws_cleanup_errors:
  "fst (finalizeAccountClaim failingAttempt deletionStore) \<noteq> None \<and>
   storeClaim (snd (finalizeAccountClaim failingAttempt deletionStore)) = Some deletedClaim"
  by (simp add: deletion_defs)

subsection \<open>Reading and writing an account of the store\<close>

lemma find_map_same_name:
  assumes "\<And>c. Name (Meta (f c)) = Name (Meta c)"
  shows "find (\<lambda>a. Name (Meta a) = n) (map (\<lambda>c. if Name (Meta c) = n then f c else c) xs) =
         map_option f (find (\<lambda>a. Name (Meta a) = n) xs)"
  by (induction xs) (auto simp: assms)

lemma find_map_replace:
  assumes "Name (Meta b) = n" and "find (\<lambda>a. Name (Meta a) = n) xs = Some a"
  shows "find (\<lambda>a. Name (Meta a) = n) (map (\<lambda>c. if Name (Meta c) = n then b else c) xs) = Some b"
  using assms(2) by (induction xs) (auto simp: assms(1) split: if_splits)

lemma getAccount_name: "getAccount n s = Some a \<Longrightarrow> Name (Meta a) = n"
  by (auto simp: getAccount_def dest: find_Some_iff[THEN iffD1])

lemma getAccount_touchAccount:
  "getAccount n (touchAccount n s) = map_option nextVersion (getAccount n s)"
proof -
  have "Name (Meta (nextVersion c)) = Name (Meta c)" for c
    by (simp add: nextVersion_def)
  then show ?thesis
    by (simp add: getAccount_def touchAccount_def replaceAccount_def find_map_same_name)
qed

lemma storeClaim_touchAccount: "storeClaim (touchAccount n s) = storeClaim s"
  by (simp add: touchAccount_def replaceAccount_def)

lemma updateAccount_fresh:
  assumes "getAccount n s = Some a" and "Name (Meta b) = n"
    and "ResourceVersion (Meta b) = ResourceVersion (Meta a)"
  shows "\<exists>s'. updateAccount b s = Inr s' \<and> storeClaim s' = storeClaim s \<and>
              getAccount n s' = Some (nextVersion b)"
proof -
  have "find (\<lambda>a. Name (Meta a) = n)
          (map (\<lambda>c. if Name (Meta c) = n then nextVersion b else c) (storeAccounts s)) =
        Some (nextVersion b)"
    using assms(1,2) by (intro find_map_replace) (simp_all add: getAccount_def nextVersion_def)
  then show ?thesis
    using assms by (simp add: updateAccount_def replaceAccount_def getAccount_def)
qed

lemma updateAccount_stale:
  assumes "getAccount n s = Some a" and "Name (Meta b) = n"
    and "ResourceVersion (Meta b) \<noteq> ResourceVersion (Meta a)"
  shows "updateAccount b s = Inl Conflict"
  using assms by (simp add: updateAccount_def)

subsection \<open>One reconciliation of a deleted claim\<close>

lemma resetAccount_fields:
  "Name (Meta (resetAccount a)) = Name (Meta a)"
  "ResourceVersion (Meta (resetAccount a)) = ResourceVersion (Meta a)"
  by (simp_all add: resetAccount_def)

lemma updateClaim_dropFinalizer:
  assumes "storeClaim s = Some claim" and "DeletionTimestamp (claimMeta claim) \<noteq> None"
    and "Finalizers (claimMeta claim) = [accountClaimFinalizer]"
  shows "updateClaim (dropFinalizer claim) s = Inr (s\<lparr>storeClaim := None\<rparr>)"
  using assms by (simp add: updateClaim_def dropFinalizer_def Remove_def)

lemma released_after_reset:
  assumes "storeClaim s = None" and "getAccount n s = Some (nextVersion (resetAccount a))"
  shows "released s n"
  using assms by (simp add: released_def nextVersion_def resetAccount_def)

text \<open>A teardown with a failure ends the reconciliation; nothing is written.\<close>

lemma finalizeAccountClaim_teardown_failed:
  assumes "deletedClaimOf s claim account" and "teardownFailures (cleanup att) \<noteq> []"
  shows "finalizeAccountClaim att s = (Some (ErrMsg ''failed to clean up AWS account''), s)"
  using assms
  by (auto simp: finalizeAccountClaim_def deletedClaimOf_def split: list.splits)

text \<open>A clean teardown without a concurrent write releases the account and the claim.\<close>

lemma finalizeAccountClaim_clean:
  assumes d: "deletedClaimOf s claim account"
    and t: "teardownFailures (cleanup att) = []" and c: "\<not> concurrentWrite att"
  shows "\<exists>s'. finalizeAccountClaim att s = (None, s') \<and> storeClaim s' = None \<and>
              getAccount (AccountLink (claimSpec claim)) s' =
                Some (nextVersion (resetAccount account))"
proof -
  let ?n = "AccountLink (claimSpec claim)"
  from d have sc: "storeClaim s = Some claim" and dt: "DeletionTimestamp (claimMeta claim) \<noteq> None"
    and fin: "Finalizers (claimMeta claim) = [accountClaimFinalizer]"
    and ga: "getAccount ?n s = Some account" and nb: "\<not> BYOC (Spec account)"
    by (simp_all add: deletedClaimOf_def)
  have nm: "Name (Meta account) = ?n"
    by (rule getAccount_name[OF ga])
  from updateAccount_fresh[OF ga, of "resetAccount account"] nm
  obtain s2 where u: "updateAccount (resetAccount account) s = Inr s2"
    and sc2: "storeClaim s2 = storeClaim s"
    and ga2: "getAccount ?n s2 = Some (nextVersion (resetAccount account))"
    by (auto simp: resetAccount_fields)
  have uc: "updateClaim (dropFinalizer claim) s2 = Inr (s2\<lparr>storeClaim := None\<rparr>)"
    using sc sc2 dt fin by (intro updateClaim_dropFinalizer) simp_all
  have "finalizeAccountClaim att s = (None, s2\<lparr>storeClaim := None\<rparr>)"
    using sc dt fin ga nb t c u uc by (auto simp: finalizeAccountClaim_def)
  moreover have "getAccount ?n (s2\<lparr>storeClaim := None\<rparr>) = Some (nextVersion (resetAccount account))"
    using ga2 by (simp add: getAccount_def)
  ultimately show ?thesis
    by simp
qed

text \<open>
  A clean teardown with a concurrent write: the reset is rejected, the reconciliation
  returns the error, and the store holds what the other writer left, the claim with its
  finalizer included.
\<close>

lemma finalizeAccountClaim_conflict:
  assumes d: "deletedClaimOf s claim account"
    and t: "teardownFailures (cleanup att) = []" and c: "concurrentWrite att"
  shows "finalizeAccountClaim att s =
           (Some (ErrMsg ''account CR modified during reset: Conflict''),
            touchAccount (AccountLink (claimSpec claim)) s) \<and>
         deletedClaimOf (touchAccount (AccountLink (claimSpec claim)) s) claim (nextVersion account)"
proof -
  let ?n = "AccountLink (claimSpec claim)"
  from d have sc: "storeClaim s = Some claim" and dt: "DeletionTimestamp (claimMeta claim) \<noteq> None"
    and fin: "Finalizers (claimMeta claim) = [accountClaimFinalizer]"
    and ga: "getAccount ?n s = Some account" and nb: "\<not> BYOC (Spec account)"
    by (simp_all add: deletedClaimOf_def)
  have nm: "Name (Meta account) = ?n"
    by (rule getAccount_name[OF ga])
  have ga1: "getAccount ?n (touchAccount ?n s) = Some (nextVersion account)"
    using ga by (simp add: getAccount_touchAccount)
  have "updateAccount (resetAccount account) (touchAccount ?n s) = Inl Conflict"
    using ga1 nm by (intro updateAccount_stale[where n = ?n and a = "nextVersion account"])
      (simp_all add: resetAccount_fields nextVersion_def)
  then have run: "finalizeAccountClaim att s =
      (Some (ErrMsg ''account CR modified during reset: Conflict''), touchAccount ?n s)"
    using sc dt fin ga nb t c nm by (auto simp: finalizeAccountClaim_def)
  have "deletedClaimOf (touchAccount ?n s) claim (nextVersion account)"
    using sc dt fin ga1 nb by (simp add: deletedClaimOf_def storeClaim_touchAccount nextVersion_def)
  with run show ?thesis
    by simp
qed

text \<open>
  C2: let the store hold a deleted claim that only the finalizer of the controller
  holds, bound to a non-BYOC account.  A reconciliation whose teardown has no failure
  (and whose writes are accepted) returns no error and leaves the claim removed and the
  account with the claim link and its namespace cleared, \<open>Claimed=false\<close>,
  \<open>State=Ready\<close> and \<open>Reused=true\<close>.  A reconciliation whose teardown has a failure
  returns an error and leaves the store as it was.  And whenever a reconciliation has
  removed the claim, its teardown had no failure and the account is reset.
\<close>

theorem finalizeAccountClaim_deletion_flow:
  assumes d: "deletedClaimOf s claim account"
  shows "(teardownFailures (cleanup att) = [] \<and> \<not> concurrentWrite att \<longrightarrow>
            fst (finalizeAccountClaim att s) = None \<and>
            released (snd (finalizeAccountClaim att s)) (AccountLink (claimSpec claim))) \<and>
         (teardownFailures (cleanup att) \<noteq> [] \<longrightarrow>
            fst (finalizeAccountClaim att s) \<noteq> None \<and> snd (finalizeAccountClaim att s) = s) \<and>
         (storeClaim (snd (finalizeAccountClaim att s)) = None \<longrightarrow>
            teardownFailures (cleanup att) = [] \<and>
            released (snd (finalizeAccountClaim att s)) (AccountLink (claimSpec claim)))"
proof -
  from d have sc: "storeClaim s = Some claim"
    by (simp add: deletedClaimOf_def)
  have clean: "fst (finalizeAccountClaim att s) = None \<and>
               released (snd (finalizeAccountClaim att s)) (AccountLink (claimSpec claim))"
    if "teardownFailures (cleanup att) = []" "\<not> concurrentWrite att"
  proof -
    from finalizeAccountClaim_clean[OF d that]
    obtain s' where "finalizeAccountClaim att s = (None, s')" "storeClaim s' = None"
        "getAccount (AccountLink (claimSpec claim)) s' = Some (nextVersion (resetAccount account))"
      by blast
    then show ?thesis
      by (simp add: released_after_reset)
  qed
  have failed: "fst (finalizeAccountClaim att s) \<noteq> None \<and> snd (finalizeAccountClaim att s) = s"
    if "teardownFailures (cleanup att) \<noteq> []"
    using finalizeAccountClaim_teardown_failed[OF d that] by simp
  have conflict: "storeClaim (snd (finalizeAccountClaim att s)) = Some claim"
    if "teardownFailures (cleanup att) = []" "concurrentWrite att"
    using finalizeAccountClaim_conflict[OF d that] sc by (simp add: storeClaim_touchAccount)
  have removed: "teardownFailures (cleanup att) = [] \<and>
                 released (snd (finalizeAccountClaim att s)) (AccountLink (claimSpec claim))"
    if gone: "storeClaim (snd (finalizeAccountClaim att s)) = None"
  proof (cases "teardownFailures (cleanup att) = []")
    case False
    with failed gone sc show ?thesis by simp
  next
    case True
    show ?thesis
    proof (cases "concurrentWrite att")
      case True
      with conflict \<open>teardownFailures (cleanup att) = []\<close> gone show ?thesis by simp
    next
      case False
      with clean \<open>teardownFailures (cleanup att) = []\<close> show ?thesis by simp
    qed
  qed
  from clean failed removed show ?thesis
    by blast
qed

theorem finalizeAccountClaim_deletion_flow_witness:
  "fst (finalizeAccountClaim (cleanAttempt False) deletionStore) = None \<and>
   released (snd (finalizeAccountClaim (cleanAttempt False) deletionStore)) ''osd-creds-mgmt-aaabbb'' \<and>
   fst (finalizeAccountClaim failingAttempt deletionStore) \<noteq> None \<and>
   snd (finalizeAccountClaim failingAttempt deletionStore) = deletionStore"
proof -
  have d: "deletedClaimOf deletionStore deletedClaim claimedAccount"
    by (simp add: deletedClaimOf_def deletionStore_def deletedClaim_def claimedAccount_def
          getAccount_def accountClaimFinalizer_def)
  have ok: "teardownFailures (cleanup (cleanAttempt False)) = [] \<and>
            \<not> concurrentWrite (cleanAttempt False)"
    by (simp add: teardownFailures_def categories_def cleanAttempt_def)
  have bad: "teardownFailures (cleanup failingAttempt) \<noteq> []"
    by (simp add: teardownFailures_def categories_def failingAttempt_def)
  have link: "AccountLink (claimSpec deletedClaim) = ''osd-creds-mgmt-aaabbb''"
    by (simp add: deletedClaim_def)
  from finalizeAccountClaim_deletion_flow[OF d, of "cleanAttempt False"] ok link
  have one: "fst (finalizeAccountClaim (cleanAttempt False) deletionStore) = None \<and>
       released (snd (finalizeAccountClaim (cleanAttempt False) deletionStore)) ''osd-creds-mgmt-aaabbb''"
    by simp
  from finalizeAccountClaim_deletion_flow[OF d, of failingAttempt] bad
  have two: "fst (finalizeAccountClaim failingAttempt deletionStore) \<noteq> None \<and>
       snd (finalizeAccountClaim failingAttempt deletionStore) = deletionStore"
    by simp
  from one two show ?thesis
    by simp
qed

subsection \<open>Reconciling again after a conflict\<close>

lemma requeue_error:
  "atts \<noteq> [] \<Longrightarrow> requeue atts (Some e, s) = reconcileUntilDone atts s"
  by (cases atts) (simp_all add: reconcileUntilDone_def)

lemma reconcileUntilDone_converges:
  assumes "\<forall>att\<in>set conflicts. teardownFailures (cleanup att) = [] \<and> concurrentWrite att"
    and "teardownFailures (cleanup final) = []" and "\<not> concurrentWrite final"
  shows "deletedClaimOf s claim account \<Longrightarrow>
         fst (reconcileUntilDone (conflicts @ [final]) s) = None \<and>
         released (snd (reconcileUntilDone (conflicts @ [final]) s)) (AccountLink (claimSpec claim))"
  using assms(1)
proof (induction conflicts arbitrary: s account)
  case Nil
  from finalizeAccountClaim_clean[OF Nil.prems(1) assms(2,3)]
  obtain s' where "finalizeAccountClaim final s = (None, s')" "storeClaim s' = None"
      "getAccount (AccountLink (claimSpec claim)) s' = Some (nextVersion (resetAccount account))"
    by blast
  then show ?case
    by (simp add: reconcileUntilDone_def released_after_reset)
next
  case (Cons c cs)
  let ?s1 = "touchAccount (AccountLink (claimSpec claim)) s"
  from Cons.prems(2) have c: "teardownFailures (cleanup c) = []" "concurrentWrite c"
    and rest: "\<forall>att\<in>set cs. teardownFailures (cleanup att) = [] \<and> concurrentWrite att"
    by simp_all
  from finalizeAccountClaim_conflict[OF Cons.prems(1) c]
  have run: "finalizeAccountClaim c s =
               (Some (ErrMsg ''account CR modified during reset: Conflict''), ?s1)"
    and d1: "deletedClaimOf ?s1 claim (nextVersion account)"
    by simp_all
  have "reconcileUntilDone ((c # cs) @ [final]) s = reconcileUntilDone (cs @ [final]) ?s1"
    using run by (simp add: reconcileUntilDone_def requeue_error)
  with Cons.IH[OF d1 rest] show ?case
    by simp
qed

lemma reconcileUntilDone_exhausted:
  assumes "\<forall>att\<in>set conflicts. teardownFailures (cleanup att) = [] \<and> concurrentWrite att"
    and "conflicts \<noteq> []"
  shows "deletedClaimOf s claim account \<Longrightarrow>
         fst (reconcileUntilDone conflicts s) =
           Some (ErrMsg ''account CR modified during reset: Conflict'') \<and>
         storeClaim (snd (reconcileUntilDone conflicts s)) = Some claim"
  using assms
proof (induction conflicts arbitrary: s account)
  case Nil
  then show ?case by simp
next
  case (Cons c cs)
  let ?s1 = "touchAccount (AccountLink (claimSpec claim)) s"
  from Cons.prems(2) have c: "teardownFailures (cleanup c) = []" "concurrentWrite c"
    and rest: "\<forall>att\<in>set cs. teardownFailures (cleanup att) = [] \<and> concurrentWrite att"
    by simp_all
  from finalizeAccountClaim_conflict[OF Cons.prems(1) c]
  have run: "finalizeAccountClaim c s =
               (Some (ErrMsg ''account CR modified during reset: Conflict''), ?s1)"
    and d1: "deletedClaimOf ?s1 claim (nextVersion account)"
    by simp_all
  show ?case
  proof (cases cs)
    case Nil
    with run d1 show ?thesis
      by (simp add: reconcileUntilDone_def deletedClaimOf_def)
  next
    case (Cons c' cs')
    then have ne: "cs \<noteq> []" by simp
    have "reconcileUntilDone (c # cs) s = reconcileUntilDone cs ?s1"
      using run ne by (simp add: reconcileUntilDone_def requeue_error)
    with Cons.IH[OF d1 rest ne] show ?thesis
      by simp
  qed
qed

text \<open>
  C9: let the store hold a deleted claim bound to a non-BYOC account.  When the reset
  of the account is rejected because another writer has changed the account since it was
  read, the reconciliation returns the conflict as an error, the claim keeps its
  finalizer, and the account has the spec and the status it had: nothing of the reset is
  written.  Reconciled again after any number of such conflicts, the flow ends without
  error in the state in which the claim is removed and the account is reset, as soon as
  one reconciliation meets no conflict; as long as every reconciliation meets one, the
  outcome is the conflict error and the claim stays.
\<close>

theorem reconcileUntilDone_conflict_retry:
  assumes d: "deletedClaimOf s claim account"
    and cs: "\<forall>att\<in>set conflicts. teardownFailures (cleanup att) = [] \<and> concurrentWrite att"
    and fin: "teardownFailures (cleanup final) = [] \<and> \<not> concurrentWrite final"
  shows "(\<forall>att. teardownFailures (cleanup att) = [] \<and> concurrentWrite att \<longrightarrow>
            fst (finalizeAccountClaim att s) =
              Some (ErrMsg ''account CR modified during reset: Conflict'') \<and>
            storeClaim (snd (finalizeAccountClaim att s)) = Some claim \<and>
            map_option Spec (getAccount (AccountLink (claimSpec claim))
                               (snd (finalizeAccountClaim att s))) = Some (Spec account) \<and>
            map_option Status (getAccount (AccountLink (claimSpec claim))
                                 (snd (finalizeAccountClaim att s))) = Some (Status account)) \<and>
         (conflicts \<noteq> [] \<longrightarrow>
            fst (reconcileUntilDone conflicts s) =
              Some (ErrMsg ''account CR modified during reset: Conflict'') \<and>
            storeClaim (snd (reconcileUntilDone conflicts s)) = Some claim) \<and>
         fst (reconcileUntilDone (conflicts @ [final]) s) = None \<and>
         released (snd (reconcileUntilDone (conflicts @ [final]) s)) (AccountLink (claimSpec claim))"
proof -
  have one: "fst (finalizeAccountClaim att s) =
              Some (ErrMsg ''account CR modified during reset: Conflict'') \<and>
            storeClaim (snd (finalizeAccountClaim att s)) = Some claim \<and>
            map_option Spec (getAccount (AccountLink (claimSpec claim))
                               (snd (finalizeAccountClaim att s))) = Some (Spec account) \<and>
            map_option Status (getAccount (AccountLink (claimSpec claim))
                                 (snd (finalizeAccountClaim att s))) = Some (Status account)"
    if "teardownFailures (cleanup att) = [] \<and> concurrentWrite att" for att
  proof -
    from that have t: "teardownFailures (cleanup att) = []" and c: "concurrentWrite att"
      by simp_all
    from finalizeAccountClaim_conflict[OF d t c]
    have run: "finalizeAccountClaim att s =
               (Some (ErrMsg ''account CR modified during reset: Conflict''),
                touchAccount (AccountLink (claimSpec claim)) s)"
      and d1: "deletedClaimOf (touchAccount (AccountLink (claimSpec claim)) s) claim
                 (nextVersion account)"
      by simp_all
    from d1 show ?thesis
      by (simp add: run deletedClaimOf_def nextVersion_def)
  qed
  from fin have f: "teardownFailures (cleanup final) = []" "\<not> concurrentWrite final"
    by simp_all
  from one reconcileUntilDone_exhausted[OF cs _ d] reconcileUntilDone_converges[OF cs f d]
  show ?thesis
    by blast
qed

theorem reconcileUntilDone_conflict_retry_witness:
  "fst (finalizeAccountClaim (cleanAttempt True) deletionStore) =
     Some (ErrMsg ''account CR modified during reset: Conflict'') \<and>
   storeClaim (snd (finalizeAccountClaim (cleanAttempt True) deletionStore)) = Some deletedClaim \<and>
   fst (reconcileUntilDone [cleanAttempt True, cleanAttempt True, cleanAttempt False] deletionStore) =
     None \<and>
   released (snd (reconcileUntilDone [cleanAttempt True, cleanAttempt True, cleanAttempt False]
                    deletionStore)) ''osd-creds-mgmt-aaabbb''"
proof -
  have d: "deletedClaimOf deletionStore deletedClaim claimedAccount"
    by (simp add: deletedClaimOf_def deletionStore_def deletedClaim_def claimedAccount_def
          getAccount_def accountClaimFinalizer_def)
  have cs: "\<forall>att\<in>set [cleanAttempt True, cleanAttempt True].
              teardownFailures (cleanup att) = [] \<and> concurrentWrite att"
    by (simp add: teardownFailures_def categories_def cleanAttempt_def)
  have c1: "teardownFailures (cleanup (cleanAttempt True)) = [] \<and> concurrentWrite (cleanAttempt True)"
    by (simp add: teardownFailures_def categories_def cleanAttempt_def)
  have fin: "teardownFailures (cleanup (cleanAttempt False)) = [] \<and>
             \<not> concurrentWrite (cleanAttempt False)"
    by (simp add: teardownFailures_def categories_def cleanAttempt_def)
  have link: "AccountLink (claimSpec deletedClaim) = ''osd-creds-mgmt-aaabbb''"
    by (simp add: deletedClaim_def)
  from reconcileUntilDone_conflict_retry[OF d cs fin] c1 link
  show ?thesis
    by simp
qed

end
